theory Spec2Isabelle
  imports Complex_Main "HOL-Library.Word"
begin

section \<open>GLSL values\<close>

text \<open>
  The shaders of \<^verbatim>\<open>common.h\<close> compute on GLSL \<^verbatim>\<open>float\<close>, \<^verbatim>\<open>vec2\<close>,
  \<^verbatim>\<open>vec3\<close>, \<^verbatim>\<open>vec4\<close> and \<^verbatim>\<open>mat4\<close>. A \<^verbatim>\<open>float\<close> is modelled as a
  \<^typ>\<open>real\<close>: arithmetic is exact, and rounding, infinities and NaN are outside the
  model. The one place where the shaders can leave the reals is a division by zero, whose
  result GLSL leaves unspecified; it is modelled as \<^term>\<open>None\<close>. Where a property
  depends on the rounding, the point fragment stage is modelled a second time with the
  rounding of every operation written out.
\<close>

datatype vec2 = Vec2 (x2: real) (y2: real)

datatype vec3 = Vec3 (x3: real) (y3: real) (z3: real)

datatype vec4 = Vec4 (x4: real) (y4: real) (z4: real) (w4: real)

text \<open>The colour names of the components that the fragment stages use.\<close>

abbreviation (input) r4 :: "vec4 \<Rightarrow> real" where
  "r4 \<equiv> x4"

abbreviation (input) a4 :: "vec4 \<Rightarrow> real" where
  "a4 \<equiv> w4"

text \<open>A \<^verbatim>\<open>mat4\<close> is column-major: its constructor takes the four columns in order.\<close>

datatype mat4 = Mat4 (col0: vec4) (col1: vec4) (col2: vec4) (col3: vec4)

text \<open>Swizzles and constructors used by the shaders.\<close>

definition rgb :: "vec4 \<Rightarrow> vec3" where
  "rgb v = Vec3 (x4 v) (y4 v) (z4 v)"

definition xy_of :: "vec3 \<Rightarrow> vec2" where
  "xy_of v = Vec2 (x3 v) (y3 v)"

definition vec4_of3 :: "vec3 \<Rightarrow> real \<Rightarrow> vec4" where
  "vec4_of3 v w = Vec4 (x3 v) (y3 v) (z3 v) w"

definition vec3_bcast :: "real \<Rightarrow> vec3" where
  "vec3_bcast s = Vec3 s s s"

text \<open>The assignment \<^verbatim>\<open>v.z = s\<close> to one component of a \<^verbatim>\<open>vec4\<close>.\<close>

definition assign_z :: "vec4 \<Rightarrow> real \<Rightarrow> vec4" where
  "assign_z v s = Vec4 (x4 v) (y4 v) s (w4 v)"

text \<open>Component-wise arithmetic.\<close>

definition vec3_add :: "vec3 \<Rightarrow> vec3 \<Rightarrow> vec3" where
  "vec3_add a b = Vec3 (x3 a + x3 b) (y3 a + y3 b) (z3 a + z3 b)"

definition vec3_scale :: "vec3 \<Rightarrow> real \<Rightarrow> vec3" where
  "vec3_scale a s = Vec3 (x3 a * s) (y3 a * s) (z3 a * s)"

definition vec4_add :: "vec4 \<Rightarrow> vec4 \<Rightarrow> vec4" where
  "vec4_add a b = Vec4 (x4 a + x4 b) (y4 a + y4 b) (z4 a + z4 b) (w4 a + w4 b)"

definition vec4_scale :: "vec4 \<Rightarrow> real \<Rightarrow> vec4" where
  "vec4_scale a s = Vec4 (x4 a * s) (y4 a * s) (z4 a * s) (w4 a * s)"

text \<open>
  Division of a \<^verbatim>\<open>float\<close> or of a \<^verbatim>\<open>vec3\<close> by a \<^verbatim>\<open>float\<close>. No shader of the file
  tests its divisor; a zero divisor gives \<^term>\<open>None\<close>, the unspecified result.
\<close>

definition float_div :: "real \<Rightarrow> real \<Rightarrow> real option" where
  "float_div a b = (if b = 0 then None else Some (a / b))"

definition vec3_div :: "vec3 \<Rightarrow> real \<Rightarrow> vec3 option" where
  "vec3_div a s = (if s = 0 then None else Some (Vec3 (x3 a / s) (y3 a / s) (z3 a / s)))"

text \<open>Matrix times vector and matrix times matrix, column-major as in GLSL.\<close>

definition mat4_mul_vec :: "mat4 \<Rightarrow> vec4 \<Rightarrow> vec4" where
  "mat4_mul_vec m v =
     vec4_add (vec4_add (vec4_scale (col0 m) (x4 v)) (vec4_scale (col1 m) (y4 v)))
              (vec4_add (vec4_scale (col2 m) (z4 v)) (vec4_scale (col3 m) (w4 v)))"

definition mat4_mul :: "mat4 \<Rightarrow> mat4 \<Rightarrow> mat4" where
  "mat4_mul a b =
     Mat4 (mat4_mul_vec a (col0 b)) (mat4_mul_vec a (col1 b))
          (mat4_mul_vec a (col2 b)) (mat4_mul_vec a (col3 b))"

section \<open>Ring vertex stage\<close>

text \<open>
  \<^verbatim>\<open>ring_vertex_shader_code\<close>: the position is projected, then its \<^verbatim>\<open>z\<close> is
  overwritten with its \<^verbatim>\<open>w\<close>; \<^verbatim>\<open>ring_xy\<close> is handed to the fragment stage.
\<close>

record ring_vertex_out =
  ring_gl_Position :: vec4
  out_ring_xy :: vec2

definition ring_vertex_shader :: "mat4 \<Rightarrow> vec3 \<Rightarrow> ring_vertex_out" where
  "ring_vertex_shader proj_view ring_xyz =
     (let gl_Position = mat4_mul_vec proj_view (vec4_of3 ring_xyz 1.0);
          gl_Position = assign_z gl_Position (w4 gl_Position)
      in \<lparr> ring_gl_Position = gl_Position, out_ring_xy = xy_of ring_xyz \<rparr>)"

section \<open>Texture sampling\<close>

text \<open>
  To a shader a \<^verbatim>\<open>sampler2D\<close> is a function from texture coordinates to texels, and
  the built-in \<^verbatim>\<open>texture(s, p)\<close> applies it.
\<close>

type_synonym sampler2D = "vec2 \<Rightarrow> vec4"

definition texture :: "sampler2D \<Rightarrow> vec2 \<Rightarrow> vec4" where
  "texture s p = s p"

text \<open>
  A texture image is \<open>tex_width\<close> by \<open>tex_height\<close> texels; \<open>texel t i j\<close> is the
  texel of column \<open>i\<close> and row \<open>j\<close>. \<open>nearest_clamp t\<close> is the sampler of an image
  under the sampling policy that \<^verbatim>\<open>load_texture\<close> fixes for every texture it uploads
  (one level, nearest filter, clamp to edge): the coordinate selects the texel that
  contains it, and a coordinate outside \<open>[0, 1)\<close> selects the nearest boundary texel.
  A texture with no texels is incomplete and samples as opaque black.
\<close>

record image2D =
  tex_width :: nat
  tex_height :: nat
  texel :: "nat \<Rightarrow> nat \<Rightarrow> vec4"

definition nearest_index :: "nat \<Rightarrow> real \<Rightarrow> nat" where
  "nearest_index n u = nat (min (int n - 1) (max 0 \<lfloor>u * real n\<rfloor>))"

definition nearest_clamp :: "image2D \<Rightarrow> sampler2D" where
  "nearest_clamp t p =
     (if tex_width t = 0 \<or> tex_height t = 0 then Vec4 0 0 0 1
      else texel t (nearest_index (tex_width t) (x2 p)) (nearest_index (tex_height t) (y2 p)))"

section \<open>Point vertex stage\<close>

text \<open>
  \<^verbatim>\<open>point_vertex_shader_code\<close>. The three steps of its \<^verbatim>\<open>main\<close> are kept apart:
  the local point, the pose read from the \<^verbatim>\<open>transformation\<close> texture, and the
  outputs. The attribute \<^verbatim>\<open>range\<close> is written \<open>rng\<close>.
\<close>

definition local_point :: "mat4 \<Rightarrow> vec3 \<Rightarrow> vec3 \<Rightarrow> real \<Rightarrow> vec4" where
  "local_point model xyz offset rng =
     (if rng > 0
      then mat4_mul_vec model (vec4_of3 (vec3_add (vec3_scale xyz rng) offset) 1.0)
      else Vec4 0 0 0 1.0)"

definition car_pose :: "sampler2D \<Rightarrow> real \<Rightarrow> mat4" where
  "car_pose transformation trans_index =
     (let r0 = texture transformation (Vec2 trans_index 0.125);
          r1 = texture transformation (Vec2 trans_index 0.375);
          r2 = texture transformation (Vec2 trans_index 0.625);
          t = texture transformation (Vec2 trans_index 0.875)
      in Mat4 (Vec4 (x4 r0) (y4 r0) (z4 r0) 0)
              (Vec4 (x4 r1) (y4 r1) (z4 r1) 0)
              (Vec4 (x4 r2) (y4 r2) (z4 r2) 0)
              (Vec4 (x4 t) (y4 t) (z4 t) 1))"

record point_vertex_out =
  out_gl_Position :: vec4
  out_key :: vec4
  out_mask :: vec4

definition point_vertex_shader ::
  "sampler2D \<Rightarrow> mat4 \<Rightarrow> mat4 \<Rightarrow> vec3 \<Rightarrow> vec3 \<Rightarrow> real \<Rightarrow> real \<Rightarrow> vec4 \<Rightarrow> vec4
     \<Rightarrow> point_vertex_out" where
  "point_vertex_shader transformation model proj_view xyz offset rng trans_index vkey vmask =
     \<lparr> out_gl_Position =
         mat4_mul_vec (mat4_mul proj_view (car_pose transformation trans_index))
                      (local_point model xyz offset rng),
       out_key = vkey,
       out_mask = vmask \<rparr>"

subsection \<open>The Pose Set texture\<close>

text \<open>
  Modelled from the spec: the host code that writes the Pose Set texture is not part of
  \<^verbatim>\<open>common.h\<close>. The spec (sections 3, 4.3 and 6) and the comment above
  \<^verbatim>\<open>point_vertex_shader_code\<close> give its layout: the texture is \<open>W\<close> texels wide and 4
  high, column \<open>c\<close> holds pose \<open>c\<close>, and the RGB values of its four texels are the three
  rotation columns and the translation of that pose. An RGB texel reads back with alpha 1.
\<close>

definition pose_texel :: "mat4 \<Rightarrow> nat \<Rightarrow> vec4" where
  "pose_texel m j =
     (let c = (if j = 0 then col0 m else if j = 1 then col1 m
               else if j = 2 then col2 m else col3 m)
      in Vec4 (x4 c) (y4 c) (z4 c) 1)"

definition encode_poses :: "mat4 list \<Rightarrow> image2D" where
  "encode_poses ps =
     \<lparr> tex_width = length ps, tex_height = 4, texel = (\<lambda>i j. pose_texel (ps ! i) j) \<rparr>"

text \<open>
  The bottom row of a transform that the texture can carry: the texture stores three
  values per column of the matrix, so the fourth row is the fixed \<open>[0, 0, 0, 1]\<close>.
  A rigid transform (orthonormal rotation columns of determinant 1, a translation) has it.
\<close>

definition affine :: "mat4 \<Rightarrow> bool" where
  "affine m \<longleftrightarrow> w4 (col0 m) = 0 \<and> w4 (col1 m) = 0 \<and> w4 (col2 m) = 0 \<and> w4 (col3 m) = 1"

definition dot3 :: "vec4 \<Rightarrow> vec4 \<Rightarrow> real" where
  "dot3 a b = x4 a * x4 b + y4 a * y4 b + z4 a * z4 b"

definition det3 :: "vec4 \<Rightarrow> vec4 \<Rightarrow> vec4 \<Rightarrow> real" where
  "det3 a b c =
     x4 a * (y4 b * z4 c - z4 b * y4 c) - x4 b * (y4 a * z4 c - z4 a * y4 c)
       + x4 c * (y4 a * z4 b - z4 a * y4 b)"

definition rigid :: "mat4 \<Rightarrow> bool" where
  "rigid m \<longleftrightarrow>
     affine m
     \<and> dot3 (col0 m) (col0 m) = 1 \<and> dot3 (col1 m) (col1 m) = 1 \<and> dot3 (col2 m) (col2 m) = 1
     \<and> dot3 (col0 m) (col1 m) = 0 \<and> dot3 (col0 m) (col2 m) = 0 \<and> dot3 (col1 m) (col2 m) = 0
     \<and> det3 (col0 m) (col1 m) (col2 m) = 1"

definition identity_pose :: mat4 where
  "identity_pose = Mat4 (Vec4 1 0 0 0) (Vec4 0 1 0 0) (Vec4 0 0 1 0) (Vec4 0 0 0 1)"

definition translation_pose :: "real \<Rightarrow> real \<Rightarrow> real \<Rightarrow> mat4" where
  "translation_pose a b c = Mat4 (Vec4 1 0 0 0) (Vec4 0 1 0 0) (Vec4 0 0 1 0) (Vec4 a b c 1)"

section \<open>Fragment stages\<close>

text \<open>
  The output \<^verbatim>\<open>color\<close> of a fragment stage. Its alpha is always a number; its RGB part
  is the result of a division in three of the stages, and is \<^term>\<open>None\<close> when the
  divisor is zero.
\<close>

record frag_color =
  color_rgb :: "vec3 option"
  color_a :: real

subsection \<open>The compositing law of the spec\<close>

text \<open>
  The alpha \<^emph>\<open>over\<close> operator as section 4.4 of the spec words it, for an overlay
  \<open>(mask_rgb, mask_a)\<close> on a base \<open>(base_rgb, base_a)\<close>. The fragment stages below are
  compared with it.
\<close>

definition spec_over_alpha :: "real \<Rightarrow> real \<Rightarrow> real" where
  "spec_over_alpha mask_a base_a = mask_a + base_a * (1 - mask_a)"

definition spec_over_rgb :: "vec3 \<Rightarrow> real \<Rightarrow> vec3 \<Rightarrow> real \<Rightarrow> vec3 option" where
  "spec_over_rgb mask_rgb mask_a base_rgb base_a =
     vec3_div
       (vec3_add (vec3_scale mask_rgb mask_a) (vec3_scale base_rgb (base_a * (1 - mask_a))))
       (spec_over_alpha mask_a base_a)"

subsection \<open>Point fragment stage\<close>

text \<open>
  \<^verbatim>\<open>point_fragment_shader_code\<close>. \<open>base_color\<close> is the local \<^verbatim>\<open>c\<close> of its
  \<^verbatim>\<open>main\<close>; the input \<^verbatim>\<open>mask\<close> is written \<open>msk\<close>
  and the uniform \<^verbatim>\<open>mono\<close> is written \<open>mono'\<close>.
\<close>

definition base_color :: "bool \<Rightarrow> sampler2D \<Rightarrow> vec4 \<Rightarrow> vec3" where
  "base_color mono' palette key =
     (if mono' then rgb (texture palette (Vec2 (r4 key) 1)) else rgb key)"

definition point_fragment_shader :: "bool \<Rightarrow> sampler2D \<Rightarrow> vec4 \<Rightarrow> vec4 \<Rightarrow> frag_color" where
  "point_fragment_shader mono' palette key msk =
     (let c = base_color mono' palette key;
          color_a = a4 msk + a4 key * (1 - a4 msk);
          color_rgb = vec3_add (vec3_scale (rgb msk) (a4 msk))
                               (vec3_scale (vec3_scale c (a4 key)) (1 - a4 msk))
      in \<lparr> color_rgb = vec3_div color_rgb color_a, color_a = color_a \<rparr>)"

text \<open>
  The palette that maps every key value to itself, as a grey level: the scalar \<open>x\<close> is
  looked up as the colour \<open>(x, x, x)\<close>.
\<close>

definition identity_palette :: sampler2D where
  "identity_palette p = Vec4 (x2 p) (x2 p) (x2 p) 1"

subsection \<open>Point fragment stage with rounding\<close>





text \<open>
  The operations of the point fragment stage, each followed by the rounding \<open>fl\<close> of
  its result.
\<close>

definition vec3_scale_fl :: "(real \<Rightarrow> real) \<Rightarrow> vec3 \<Rightarrow> real \<Rightarrow> vec3" where
  "vec3_scale_fl fl a s = Vec3 (fl (x3 a * s)) (fl (y3 a * s)) (fl (z3 a * s))"

definition vec3_add_fl :: "(real \<Rightarrow> real) \<Rightarrow> vec3 \<Rightarrow> vec3 \<Rightarrow> vec3" where
  "vec3_add_fl fl a b = Vec3 (fl (x3 a + x3 b)) (fl (y3 a + y3 b)) (fl (z3 a + z3 b))"

definition vec3_div_fl :: "(real \<Rightarrow> real) \<Rightarrow> vec3 \<Rightarrow> real \<Rightarrow> vec3 option" where
  "vec3_div_fl fl a s =
     (if s = 0 then None else Some (Vec3 (fl (x3 a / s)) (fl (y3 a / s)) (fl (z3 a / s))))"

text \<open>
  \<^verbatim>\<open>point_fragment_shader_code\<close> again, with the rounding of every operation written
  out. With the identity for \<open>fl\<close> it is \<open>point_fragment_shader\<close>; with
  \<open>binary32\<close> it is the stage as the hardware computes it.
\<close>

definition point_fragment_shader_fl ::
  "(real \<Rightarrow> real) \<Rightarrow> bool \<Rightarrow> sampler2D \<Rightarrow> vec4 \<Rightarrow> vec4 \<Rightarrow> frag_color" where
  "point_fragment_shader_fl fl mono' palette key msk =
     (let c = (if mono' then rgb (texture palette (Vec2 (r4 key) 1)) else rgb key);
          color_a = fl (a4 msk + fl (a4 key * fl (1 - a4 msk)));
          color_rgb = vec3_add_fl fl (vec3_scale_fl fl (rgb msk) (a4 msk))
                        (vec3_scale_fl fl (vec3_scale_fl fl c (a4 key)) (fl (1 - a4 msk)))
      in \<lparr> color_rgb = vec3_div_fl fl color_rgb color_a, color_a = color_a \<rparr>)"






subsection \<open>Image fragment stage\<close>

text \<open>
  \<^verbatim>\<open>image_fragment_shader_code\<close>. The samplers \<^verbatim>\<open>image\<close> and \<^verbatim>\<open>mask\<close> are
  written \<open>img\<close> and \<open>msk\<close>.
\<close>

definition image_fragment_shader ::
  "bool \<Rightarrow> bool \<Rightarrow> sampler2D \<Rightarrow> sampler2D \<Rightarrow> sampler2D \<Rightarrow> vec2 \<Rightarrow> frag_color" where
  "image_fragment_shader mono' use_palette img msk palette uv =
     (let m = texture msk uv;
          itex = texture img uv;
          key_color = (if use_palette then rgb (texture palette (Vec2 (r4 itex) 1))
                       else vec3_bcast (r4 itex));
          img_color = (if mono' then key_color else rgb itex);
          color_a = a4 m + a4 itex * (1 - a4 m)
      in \<lparr> color_rgb =
             vec3_div (vec3_add (vec3_scale (rgb m) (a4 m)) (vec3_scale img_color (1.0 - a4 m)))
                      color_a,
           color_a = color_a \<rparr>)"

text \<open>A sampler that returns the same texel everywhere.\<close>

definition uniform_sampler :: "vec4 \<Rightarrow> sampler2D" where
  "uniform_sampler v p = v"

subsection \<open>Ring fragment stage\<close>

text \<open>
  \<^verbatim>\<open>ring_fragment_shader_code\<close>. The built-ins: \<^verbatim>\<open>length\<close> of a \<^verbatim>\<open>vec2\<close>,
  \<^verbatim>\<open>clamp\<close>, and \<^verbatim>\<open>round\<close>, whose direction at a fraction of one half is the
  implementation's choice (the parameter \<open>half_up\<close>). The screen-space derivatives
  \<^verbatim>\<open>dFdx(radius)\<close> and \<^verbatim>\<open>dFdy(radius)\<close> come from the neighbouring fragments and
  are inputs of the model.
\<close>

definition length2 :: "vec2 \<Rightarrow> real" where
  "length2 v = sqrt (x2 v * x2 v + y2 v * y2 v)"

definition clamp :: "real \<Rightarrow> real \<Rightarrow> real \<Rightarrow> real" where
  "clamp x minVal maxVal = min (max x minVal) maxVal"

definition glsl_round :: "bool \<Rightarrow> real \<Rightarrow> real" where
  "glsl_round half_up x =
     (if frac x = 1/2 then (if half_up then of_int \<lceil>x\<rceil> else of_int \<lfloor>x\<rfloor>)
      else of_int (round x))"

text \<open>
  The local \<^verbatim>\<open>lineWeight\<close> before and after the test on the radius. A division by zero
  (\<^verbatim>\<open>ring_range = 0\<close>, or a gradient of length zero) leaves the weight unspecified,
  unless the test on the radius then overwrites it with zero.
\<close>

definition ring_clamped_weight :: "bool \<Rightarrow> real \<Rightarrow> real \<Rightarrow> real \<Rightarrow> real \<Rightarrow> real option" where
  "ring_clamped_weight half_up ring_range ring_thickness radius len =
     (case float_div radius ring_range of
        None \<Rightarrow> None
      | Some q \<Rightarrow>
          (let signedDistance = radius - glsl_round half_up q * ring_range
           in case float_div signedDistance len of
                None \<Rightarrow> None
              | Some d \<Rightarrow>
                  (let rangeFromLine = \<bar>d\<bar>
                   in Some (clamp (ring_thickness - rangeFromLine) 0 1))))"

definition ring_line_weight ::
  "bool \<Rightarrow> real \<Rightarrow> real \<Rightarrow> vec2 \<Rightarrow> real \<Rightarrow> real \<Rightarrow> real option" where
  "ring_line_weight half_up ring_range ring_thickness ring_xy dFdx_radius dFdy_radius =
     (let radius = length2 ring_xy;
          gradient = Vec2 dFdx_radius dFdy_radius;
          len = length2 gradient;
          lineWeight = ring_clamped_weight half_up ring_range ring_thickness radius len
      in if radius > 1000.0 \<or> radius < ring_range * 0.1 then Some 0 else lineWeight)"

definition ring_fragment_shader ::
  "bool \<Rightarrow> real \<Rightarrow> real \<Rightarrow> vec2 \<Rightarrow> real \<Rightarrow> real \<Rightarrow> frag_color" where
  "ring_fragment_shader half_up ring_range ring_thickness ring_xy dFdx_radius dFdy_radius =
     \<lparr> color_rgb =
         map_option (\<lambda>lineWeight. vec3_scale (vec3_bcast 0.15) lineWeight)
           (ring_line_weight half_up ring_range ring_thickness ring_xy dFdx_radius dFdy_radius),
       color_a = 1.0 \<rparr>"

section \<open>Host side: the OpenGL objects\<close>

text \<open>
  \<^verbatim>\<open>load_shaders\<close> and \<^verbatim>\<open>load_texture\<close> act through OpenGL calls only. The
  model keeps the state those calls read and write, and gives each call the effect the
  OpenGL specification describes for well-formed arguments; the error flag of the context
  is outside the model, a call the specification rejects leaves the state as it is.
  Names of objects are \<^verbatim>\<open>GLuint\<close>, 32-bit words.
\<close>

type_synonym GLuint = "32 word"

datatype GLenum =
    GL_TEXTURE_2D
  | GL_TEXTURE_BASE_LEVEL | GL_TEXTURE_MAX_LEVEL
  | GL_TEXTURE_MAG_FILTER | GL_TEXTURE_MIN_FILTER
  | GL_TEXTURE_WRAP_S | GL_TEXTURE_WRAP_T
  | GL_NEAREST | GL_LINEAR | GL_NEAREST_MIPMAP_LINEAR
  | GL_REPEAT | GL_CLAMP_TO_EDGE
  | GL_RED | GL_RGB | GL_RGBA | GL_RGB32F
  | GL_FLOAT | GL_UNSIGNED_BYTE
  | GL_VERTEX_SHADER | GL_FRAGMENT_SHADER
  | GL_COMPILE_STATUS | GL_LINK_STATUS | GL_INFO_LOG_LENGTH

subsection \<open>Textures\<close>

text \<open>
  The \<^verbatim>\<open>GLint\<close> argument of \<^verbatim>\<open>glTexParameteri\<close> is a level number or an
  enumerant, depending on the parameter.
\<close>

datatype tex_param = Level int | Enumerant GLenum

text \<open>An image of a texture, as \<^verbatim>\<open>glTexImage2D\<close> is given it; \<open>'f\<close> is the host array.\<close>

record 'f tex_image =
  image_internal_format :: GLenum
  image_width :: int
  image_height :: int
  image_border :: int
  image_format :: GLenum
  image_type :: GLenum
  image_data :: 'f

record 'f texture_object =
  base_level :: int
  max_level :: int
  mag_filter :: GLenum
  min_filter :: GLenum
  wrap_s :: GLenum
  wrap_t :: GLenum
  levels :: "int \<rightharpoonup> 'f tex_image"

record 'f gl_textures =
  binding_2d :: GLuint
  texture_objects :: "GLuint \<rightharpoonup> 'f texture_object"

text \<open>The state of a texture object when its name is bound for the first time.\<close>

definition new_texture_object :: "'f texture_object" where
  "new_texture_object =
     \<lparr> base_level = 0, max_level = 1000, mag_filter = GL_LINEAR,
       min_filter = GL_NEAREST_MIPMAP_LINEAR, wrap_s = GL_REPEAT, wrap_t = GL_REPEAT,
       levels = Map.empty \<rparr>"

definition glBindTexture :: "GLenum \<Rightarrow> GLuint \<Rightarrow> 'f gl_textures \<Rightarrow> 'f gl_textures" where
  "glBindTexture target name s =
     (if target \<noteq> GL_TEXTURE_2D then s
      else s\<lparr> binding_2d := name,
             texture_objects :=
               (case texture_objects s name of
                  None \<Rightarrow> (texture_objects s)(name \<mapsto> new_texture_object)
                | Some _ \<Rightarrow> texture_objects s) \<rparr>)"

fun set_tex_parameter :: "GLenum \<Rightarrow> tex_param \<Rightarrow> 'f texture_object \<Rightarrow> 'f texture_object" where
  "set_tex_parameter GL_TEXTURE_BASE_LEVEL (Level n) obj = obj\<lparr> base_level := n \<rparr>"
| "set_tex_parameter GL_TEXTURE_MAX_LEVEL (Level n) obj = obj\<lparr> max_level := n \<rparr>"
| "set_tex_parameter GL_TEXTURE_MAG_FILTER (Enumerant e) obj = obj\<lparr> mag_filter := e \<rparr>"
| "set_tex_parameter GL_TEXTURE_MIN_FILTER (Enumerant e) obj = obj\<lparr> min_filter := e \<rparr>"
| "set_tex_parameter GL_TEXTURE_WRAP_S (Enumerant e) obj = obj\<lparr> wrap_s := e \<rparr>"
| "set_tex_parameter GL_TEXTURE_WRAP_T (Enumerant e) obj = obj\<lparr> wrap_t := e \<rparr>"
| "set_tex_parameter _ _ obj = obj"

definition glTexParameteri ::
  "GLenum \<Rightarrow> GLenum \<Rightarrow> tex_param \<Rightarrow> 'f gl_textures \<Rightarrow> 'f gl_textures" where
  "glTexParameteri target pname param s =
     (if target \<noteq> GL_TEXTURE_2D then s
      else case texture_objects s (binding_2d s) of
             None \<Rightarrow> s
           | Some obj \<Rightarrow>
               s\<lparr> texture_objects :=
                    (texture_objects s)(binding_2d s \<mapsto> set_tex_parameter pname param obj) \<rparr>)"

definition glTexImage2D ::
  "GLenum \<Rightarrow> int \<Rightarrow> GLenum \<Rightarrow> int \<Rightarrow> int \<Rightarrow> int \<Rightarrow> GLenum \<Rightarrow> GLenum \<Rightarrow> 'f
     \<Rightarrow> 'f gl_textures \<Rightarrow> 'f gl_textures" where
  "glTexImage2D target level internalformat width height border format type' data s =
     (if target \<noteq> GL_TEXTURE_2D then s
      else case texture_objects s (binding_2d s) of
             None \<Rightarrow> s
           | Some obj \<Rightarrow>
               s\<lparr> texture_objects :=
                    (texture_objects s)(binding_2d s \<mapsto>
                       obj\<lparr> levels := (levels obj)(level \<mapsto>
                         \<lparr> image_internal_format = internalformat, image_width = width,
                           image_height = height, image_border = border,
                           image_format = format, image_type = type',
                           image_data = data \<rparr>) \<rparr>) \<rparr>)"

text \<open>The texture object that the calls on \<^verbatim>\<open>GL_TEXTURE_2D\<close> act on.\<close>

definition bound_object :: "'f gl_textures \<Rightarrow> 'f texture_object option" where
  "bound_object s = texture_objects s (binding_2d s)"

text \<open>A \<^verbatim>\<open>size_t\<close> passed where OpenGL takes a \<^verbatim>\<open>GLsizei\<close>: the low 32 bits, signed.\<close>

definition to_GLsizei :: "64 word \<Rightarrow> int" where
  "to_GLsizei n = sint (ucast n :: 32 word)"

text \<open>
  \<^verbatim>\<open>load_texture\<close>. The host array \<^verbatim>\<open>texture\<close> is written \<open>tex\<close>, and the
  argument \<^verbatim>\<open>type\<close> is written \<open>type'\<close>.
\<close>

definition load_texture ::
  "'f \<Rightarrow> 64 word \<Rightarrow> 64 word \<Rightarrow> GLuint \<Rightarrow> GLenum \<Rightarrow> GLenum \<Rightarrow> GLenum
     \<Rightarrow> 'f gl_textures \<Rightarrow> 'f gl_textures" where
  "load_texture tex width height texture_id internal_format format type' s0 =
     (let s = glBindTexture GL_TEXTURE_2D texture_id s0;
          s = glTexParameteri GL_TEXTURE_2D GL_TEXTURE_MAX_LEVEL (Level 0) s;
          s = glTexParameteri GL_TEXTURE_2D GL_TEXTURE_BASE_LEVEL (Level 0) s;
          s = glTexParameteri GL_TEXTURE_2D GL_TEXTURE_MAG_FILTER (Enumerant GL_NEAREST) s;
          s = glTexParameteri GL_TEXTURE_2D GL_TEXTURE_MIN_FILTER (Enumerant GL_NEAREST) s;
          s = glTexParameteri GL_TEXTURE_2D GL_TEXTURE_WRAP_S (Enumerant GL_CLAMP_TO_EDGE) s;
          s = glTexParameteri GL_TEXTURE_2D GL_TEXTURE_WRAP_T (Enumerant GL_CLAMP_TO_EDGE) s
      in glTexImage2D GL_TEXTURE_2D 0 internal_format (to_GLsizei width) (to_GLsizei height) 0
           format type' tex s)"

subsection \<open>Shaders and programs\<close>

text \<open>
  A shader object counts the programs it is attached to: \<^verbatim>\<open>glDeleteShader\<close> deletes a
  shader that is attached nowhere and only flags one that is attached, and detaching the
  last attachment of a flagged shader deletes it.
\<close>

record shader_object =
  shader_type :: GLenum
  shader_source :: string
  compile_status :: bool
  shader_info_log :: string
  delete_status :: bool
  attach_count :: nat

record program_object =
  attached_shaders :: "GLuint list"
  link_status :: bool
  program_info_log :: string

text \<open>
  What the driver decides: for a shader type and a source, whether it compiles and the
  information log; for the attached shaders, whether they link and the information log.
  Both are parameters: the properties below hold for every compiler and linker.
\<close>

record gl_driver =
  compile_shader :: "GLenum \<Rightarrow> string \<Rightarrow> bool \<times> string"
  link_program :: "shader_object list \<Rightarrow> bool \<times> string"

text \<open>
  The state \<^verbatim>\<open>load_shaders\<close> acts on: the shader and program objects, the next unused
  object name (creating an object succeeds and takes it), and the standard output.
\<close>

record gl_world =
  shaders :: "GLuint \<rightharpoonup> shader_object"
  programs :: "GLuint \<rightharpoonup> program_object"
  next_name :: GLuint
  stdout :: string

text \<open>A C string ends at its first NUL character.\<close>

definition c_str :: "string \<Rightarrow> string" where
  "c_str s = takeWhile (\<lambda>c. c \<noteq> CHR 0x00) s"

definition glCreateShader :: "GLenum \<Rightarrow> gl_world \<Rightarrow> GLuint \<times> gl_world" where
  "glCreateShader ty w =
     (next_name w,
      w\<lparr> shaders := (shaders w)(next_name w \<mapsto>
             \<lparr> shader_type = ty, shader_source = [], compile_status = False,
               shader_info_log = [], delete_status = False, attach_count = 0 \<rparr>),
         next_name := next_name w + 1 \<rparr>)"

text \<open>\<^verbatim>\<open>glShaderSource\<close> with a null \<^verbatim>\<open>length\<close>: the strings are C strings.\<close>

definition glShaderSource :: "GLuint \<Rightarrow> string list \<Rightarrow> gl_world \<Rightarrow> gl_world" where
  "glShaderSource sh strings w =
     (case shaders w sh of
        None \<Rightarrow> w
      | Some obj \<Rightarrow> w\<lparr> shaders := (shaders w)(sh \<mapsto> obj\<lparr> shader_source := concat strings \<rparr>) \<rparr>)"

definition glCompileShader :: "gl_driver \<Rightarrow> GLuint \<Rightarrow> gl_world \<Rightarrow> gl_world" where
  "glCompileShader d sh w =
     (case shaders w sh of
        None \<Rightarrow> w
      | Some obj \<Rightarrow>
          (let (ok, info) = compile_shader d (shader_type obj) (shader_source obj)
           in w\<lparr> shaders := (shaders w)(sh \<mapsto>
                    obj\<lparr> compile_status := ok, shader_info_log := info \<rparr>) \<rparr>))"

text \<open>
  \<^verbatim>\<open>GL_INFO_LOG_LENGTH\<close> counts the terminating NUL, and is 0 for an empty log.
\<close>

definition info_log_length_of :: "string \<Rightarrow> int" where
  "info_log_length_of info = (if info = [] then 0 else int (length info) + 1)"

definition glGetShaderiv :: "GLuint \<Rightarrow> GLenum \<Rightarrow> gl_world \<Rightarrow> int" where
  "glGetShaderiv sh pname w =
     (case shaders w sh of
        None \<Rightarrow> 0
      | Some obj \<Rightarrow>
          if pname = GL_COMPILE_STATUS then (if compile_status obj then 1 else 0)
          else if pname = GL_INFO_LOG_LENGTH then info_log_length_of (shader_info_log obj)
          else 0)"

text \<open>
  \<^verbatim>\<open>glGetShaderInfoLog\<close> writes at most \<open>maxLength\<close> characters, the NUL included;
  the result is the content of the zero-filled buffer it is given.
\<close>

definition glGetShaderInfoLog :: "GLuint \<Rightarrow> int \<Rightarrow> gl_world \<Rightarrow> string" where
  "glGetShaderInfoLog sh maxLength w =
     (case shaders w sh of
        None \<Rightarrow> []
      | Some obj \<Rightarrow> take (nat (maxLength - 1)) (shader_info_log obj))"

definition glCreateProgram :: "gl_world \<Rightarrow> GLuint \<times> gl_world" where
  "glCreateProgram w =
     (next_name w,
      w\<lparr> programs := (programs w)(next_name w \<mapsto>
             \<lparr> attached_shaders = [], link_status = False, program_info_log = [] \<rparr>),
         next_name := next_name w + 1 \<rparr>)"

definition glAttachShader :: "GLuint \<Rightarrow> GLuint \<Rightarrow> gl_world \<Rightarrow> gl_world" where
  "glAttachShader pr sh w =
     (case (programs w pr, shaders w sh) of
        (Some p, Some obj) \<Rightarrow>
          if sh \<in> set (attached_shaders p) then w
          else w\<lparr> programs := (programs w)(pr \<mapsto>
                      p\<lparr> attached_shaders := attached_shaders p @ [sh] \<rparr>),
                  shaders := (shaders w)(sh \<mapsto> obj\<lparr> attach_count := attach_count obj + 1 \<rparr>) \<rparr>
      | _ \<Rightarrow> w)"

definition glLinkProgram :: "gl_driver \<Rightarrow> GLuint \<Rightarrow> gl_world \<Rightarrow> gl_world" where
  "glLinkProgram d pr w =
     (case programs w pr of
        None \<Rightarrow> w
      | Some p \<Rightarrow>
          (let (ok, info) = link_program d (List.map_filter (shaders w) (attached_shaders p))
           in w\<lparr> programs := (programs w)(pr \<mapsto>
                    p\<lparr> link_status := ok, program_info_log := info \<rparr>) \<rparr>))"

definition glGetProgramiv :: "GLuint \<Rightarrow> GLenum \<Rightarrow> gl_world \<Rightarrow> int" where
  "glGetProgramiv pr pname w =
     (case programs w pr of
        None \<Rightarrow> 0
      | Some p \<Rightarrow>
          if pname = GL_LINK_STATUS then (if link_status p then 1 else 0)
          else if pname = GL_INFO_LOG_LENGTH then info_log_length_of (program_info_log p)
          else 0)"

definition glGetProgramInfoLog :: "GLuint \<Rightarrow> int \<Rightarrow> gl_world \<Rightarrow> string" where
  "glGetProgramInfoLog pr maxLength w =
     (case programs w pr of
        None \<Rightarrow> []
      | Some p \<Rightarrow> take (nat (maxLength - 1)) (program_info_log p))"

definition glDetachShader :: "GLuint \<Rightarrow> GLuint \<Rightarrow> gl_world \<Rightarrow> gl_world" where
  "glDetachShader pr sh w =
     (case (programs w pr, shaders w sh) of
        (Some p, Some obj) \<Rightarrow>
          if sh \<notin> set (attached_shaders p) then w
          else
            (let obj' = obj\<lparr> attach_count := attach_count obj - 1 \<rparr>
             in w\<lparr> programs := (programs w)(pr \<mapsto>
                      p\<lparr> attached_shaders := removeAll sh (attached_shaders p) \<rparr>),
                    shaders :=
                      (if delete_status obj' \<and> attach_count obj' = 0
                       then (shaders w)(sh := None)
                       else (shaders w)(sh \<mapsto> obj')) \<rparr>)
      | _ \<Rightarrow> w)"

definition glDeleteShader :: "GLuint \<Rightarrow> gl_world \<Rightarrow> gl_world" where
  "glDeleteShader sh w =
     (case shaders w sh of
        None \<Rightarrow> w
      | Some obj \<Rightarrow>
          if attach_count obj = 0 then w\<lparr> shaders := (shaders w)(sh := None) \<rparr>
          else w\<lparr> shaders := (shaders w)(sh \<mapsto> obj\<lparr> delete_status := True \<rparr>) \<rparr>)"

text \<open>\<^verbatim>\<open>printf("%s\n", msg)\<close>: the C string \<open>msg\<close> and a newline go to the output.\<close>

definition printf_line :: "string \<Rightarrow> gl_world \<Rightarrow> gl_world" where
  "printf_line msg w = w\<lparr> stdout := stdout w @ c_str msg @ [CHR 0x0A] \<rparr>"

text \<open>
  \<^verbatim>\<open>load_shaders\<close>. The local \<^verbatim>\<open>result\<close> receives the compile and link status and is
  never read.
\<close>

definition load_shaders :: "gl_driver \<Rightarrow> string \<Rightarrow> string \<Rightarrow> gl_world \<Rightarrow> GLuint \<times> gl_world" where
  "load_shaders d vertex_shader_code fragment_shader_code w0 =
     (let (vertex_shader_id, w) = glCreateShader GL_VERTEX_SHADER w0;
          (fragment_shader_id, w) = glCreateShader GL_FRAGMENT_SHADER w;
          result = (0::int);
          vertex_source_pointer = c_str vertex_shader_code;
          w = glShaderSource vertex_shader_id [vertex_source_pointer] w;
          w = glCompileShader d vertex_shader_id w;
          result = glGetShaderiv vertex_shader_id GL_COMPILE_STATUS w;
          info_log_length = glGetShaderiv vertex_shader_id GL_INFO_LOG_LENGTH w;
          w = (if info_log_length > 0
               then printf_line (glGetShaderInfoLog vertex_shader_id info_log_length w) w
               else w);
          fragment_source_pointer = c_str fragment_shader_code;
          w = glShaderSource fragment_shader_id [fragment_source_pointer] w;
          w = glCompileShader d fragment_shader_id w;
          result = glGetShaderiv fragment_shader_id GL_COMPILE_STATUS w;
          info_log_length = glGetShaderiv fragment_shader_id GL_INFO_LOG_LENGTH w;
          w = (if info_log_length > 0
               then printf_line (glGetShaderInfoLog fragment_shader_id info_log_length w) w
               else w);
          (program_id, w) = glCreateProgram w;
          w = glAttachShader program_id vertex_shader_id w;
          w = glAttachShader program_id fragment_shader_id w;
          w = glLinkProgram d program_id w;
          result = glGetProgramiv program_id GL_LINK_STATUS w;
          info_log_length = glGetProgramiv program_id GL_INFO_LOG_LENGTH w;
          w = (if info_log_length > 0
               then printf_line (glGetProgramInfoLog program_id info_log_length w) w
               else w);
          w = glDetachShader program_id vertex_shader_id w;
          w = glDetachShader program_id fragment_shader_id w;
          w = glDeleteShader vertex_shader_id w;
          w = glDeleteShader fragment_shader_id w
      in (program_id, w))"

text \<open>
  For the statement of what \<^verbatim>\<open>load_shaders\<close> does: the shader object of a stage when
  the program is linked, and what \<^verbatim>\<open>load_shaders\<close> prints for an information log.
\<close>

definition compiled_stage :: "gl_driver \<Rightarrow> GLenum \<Rightarrow> string \<Rightarrow> shader_object" where
  "compiled_stage d ty code =
     \<lparr> shader_type = ty, shader_source = c_str code,
       compile_status = fst (compile_shader d ty (c_str code)),
       shader_info_log = snd (compile_shader d ty (c_str code)),
       delete_status = False, attach_count = 1 \<rparr>"

definition printed_log :: "string \<Rightarrow> string" where
  "printed_log info = (if info = [] then [] else c_str info @ [CHR 0x0A])"

section \<open>Properties\<close>

subsection \<open>Helper lemmas\<close>

lemma nearest_index_less: "0 < n \<Longrightarrow> nearest_index n u < n"
  by (simp add: nearest_index_def)

lemma nearest_index_center:
  assumes "c < n"
  shows "nearest_index n ((real c + 1/2) / real n) = c"
proof -
  have "(real c + 1/2) / real n * real n = real c + 1/2"
    using assms by simp
  moreover have "\<lfloor>real c + 1/2\<rfloor> = int c"
    by linarith
  ultimately show ?thesis
    using assms by (simp add: nearest_index_def)
qed

lemma nearest_index_clamp_high:
  assumes "0 < n" and "1 \<le> u"
  shows "nearest_index n u = n - 1"
proof -
  have "real n \<le> u * real n"
    using assms by simp
  then have "int n \<le> \<lfloor>u * real n\<rfloor>"
    by linarith
  then show ?thesis
    using assms by (simp add: nearest_index_def)
qed

lemma mat4_mul_vec_assoc:
  "mat4_mul_vec (mat4_mul a b) v = mat4_mul_vec a (mat4_mul_vec b v)"
  by (cases a; cases b; cases v)
     (simp add: mat4_mul_def mat4_mul_vec_def vec4_add_def vec4_scale_def algebra_simps)

lemma rigid_affine: "rigid m \<Longrightarrow> affine m"
  by (simp add: rigid_def)

lemma pose_texel_rebuild:
  "affine m \<Longrightarrow>
   Mat4 (Vec4 (x4 (pose_texel m 0)) (y4 (pose_texel m 0)) (z4 (pose_texel m 0)) 0)
        (Vec4 (x4 (pose_texel m 1)) (y4 (pose_texel m 1)) (z4 (pose_texel m 1)) 0)
        (Vec4 (x4 (pose_texel m 2)) (y4 (pose_texel m 2)) (z4 (pose_texel m 2)) 0)
        (Vec4 (x4 (pose_texel m 3)) (y4 (pose_texel m 3)) (z4 (pose_texel m 3)) 1) = m"
  by (cases m; cases "col0 m"; cases "col1 m"; cases "col2 m"; cases "col3 m")
     (simp add: pose_texel_def affine_def)

lemma texture_encode_poses:
  assumes "ps \<noteq> []"
  shows "texture (nearest_clamp (encode_poses ps)) (Vec2 u 0.125)
           = pose_texel (ps ! nearest_index (length ps) u) 0"
    and "texture (nearest_clamp (encode_poses ps)) (Vec2 u 0.375)
           = pose_texel (ps ! nearest_index (length ps) u) 1"
    and "texture (nearest_clamp (encode_poses ps)) (Vec2 u 0.625)
           = pose_texel (ps ! nearest_index (length ps) u) 2"
    and "texture (nearest_clamp (encode_poses ps)) (Vec2 u 0.875)
           = pose_texel (ps ! nearest_index (length ps) u) 3"
  using assms
  by (simp_all add: texture_def nearest_clamp_def encode_poses_def nearest_index_def)

subsection \<open>Point vertex stage\<close>

text \<open>
  C1. Let the Pose Set texture hold the poses \<open>ps\<close>, one per column, and let the
  coordinate \<open>trans_index\<close> select column \<open>c\<close>. If the bottom row of pose \<open>c\<close> is
  \<open>[0, 0, 0, 1]\<close>, as it is for every rigid transform, then the matrix that the point
  vertex stage assembles from the four texels sampled at the row centers 0.125, 0.375,
  0.625 and 0.875 is pose \<open>c\<close> itself: writing a pose into the texture and decoding it
  gives the pose back, with no arithmetic on its values.
\<close>

theorem pose_roundtrip:
  assumes "c < length ps"
    and "affine (ps ! c)"
    and "nearest_index (length ps) trans_index = c"
  shows "car_pose (nearest_clamp (encode_poses ps)) trans_index = ps ! c"
proof -
  from assms(1) have ne: "ps \<noteq> []"
    by auto
  show ?thesis
    unfolding car_pose_def Let_def texture_encode_poses [OF ne] assms(3)
    by (rule pose_texel_rebuild [OF assms(2)])
qed

theorem pose_roundtrip_witness:
  "(1::nat) < length [identity_pose, translation_pose 1 0 0]
   \<and> affine ([identity_pose, translation_pose 1 0 0] ! 1)
   \<and> nearest_index (length [identity_pose, translation_pose 1 0 0]) 1.0 = 1
   \<and> car_pose (nearest_clamp (encode_poses [identity_pose, translation_pose 1 0 0])) 1.0
       = translation_pose 1 0 0"
proof -
  have l: "(1::nat) < length [identity_pose, translation_pose 1 0 0]"
    by simp
  have a: "affine ([identity_pose, translation_pose 1 0 0] ! 1)"
    by (simp add: affine_def translation_pose_def)
  have n: "nearest_index (length [identity_pose, translation_pose 1 0 0]) 1.0 = 1"
    by (simp add: nearest_index_def)
  from pose_roundtrip [OF l a n] l a n show ?thesis
    by simp
qed

text \<open>
  C2, as the claim states it, fails: for a point with \<^verbatim>\<open>range = 0\<close> and a model matrix
  that translates by \<open>(1, 0, 0)\<close>, the local point is \<open>(0, 0, 0, 1)\<close>, not the model
  matrix applied to the origin, which is \<open>(1, 0, 0, 1)\<close>.
\<close>

theorem local_point_not_model_origin:
  "local_point (translation_pose 1 0 0) (Vec3 0 0 0) (Vec3 0 0 0) 0
     \<noteq> mat4_mul_vec (translation_pose 1 0 0) (Vec4 0 0 0 1)"
  by (simp add: local_point_def translation_pose_def mat4_mul_vec_def vec4_add_def
      vec4_scale_def)

text \<open>
  C2, amended. When \<^verbatim>\<open>range > 0\<close> the clip position is
  \<^verbatim>\<open>proj_view * pose * model * (xyz * range + offset, 1)\<close>. When \<^verbatim>\<open>range \<le> 0\<close> the
  local point is \<open>(0, 0, 0, 1)\<close> whatever \<^verbatim>\<open>xyz\<close>, \<^verbatim>\<open>offset\<close> and \<^verbatim>\<open>model\<close> are:
  the model matrix is not applied, and the clip position is
  \<^verbatim>\<open>proj_view * pose * (0, 0, 0, 1)\<close>. The point is not discarded.
\<close>

theorem point_vertex_composition:
  "(0 < rng \<longrightarrow>
      out_gl_Position
          (point_vertex_shader transformation model proj_view xyz offset rng trans_index
             vkey vmask)
        = mat4_mul_vec
            (mat4_mul (mat4_mul proj_view (car_pose transformation trans_index)) model)
            (vec4_of3 (vec3_add (vec3_scale xyz rng) offset) 1))
   \<and> (rng \<le> 0 \<longrightarrow>
      local_point model xyz offset rng = Vec4 0 0 0 1
      \<and> out_gl_Position
          (point_vertex_shader transformation model proj_view xyz offset rng trans_index
             vkey vmask)
        = mat4_mul_vec (mat4_mul proj_view (car_pose transformation trans_index))
            (Vec4 0 0 0 1))"
  by (simp add: point_vertex_shader_def local_point_def mat4_mul_vec_assoc)

theorem point_vertex_composition_witness:
  "(0::real) < 2
   \<and> out_gl_Position
       (point_vertex_shader (nearest_clamp (encode_poses [translation_pose 0 1 0]))
          (translation_pose 1 0 0) identity_pose (Vec3 1 0 0) (Vec3 0 0 3) 2 0
          (Vec4 0 0 0 1) (Vec4 0 0 0 0))
       = Vec4 3 1 3 1
   \<and> (-1::real) \<le> 0
   \<and> local_point (translation_pose 1 0 0) (Vec3 1 0 0) (Vec3 0 0 3) (-1) = Vec4 0 0 0 1
   \<and> out_gl_Position
       (point_vertex_shader (nearest_clamp (encode_poses [translation_pose 0 1 0]))
          (translation_pose 1 0 0) identity_pose (Vec3 1 0 0) (Vec3 0 0 3) (-1) 0
          (Vec4 0 0 0 1) (Vec4 0 0 0 0))
       = Vec4 0 1 0 1"
proof -
  have p: "car_pose (nearest_clamp (encode_poses [translation_pose 0 1 0])) 0
             = translation_pose 0 1 0"
    by (simp add: car_pose_def texture_def nearest_clamp_def encode_poses_def
        nearest_index_def pose_texel_def translation_pose_def)
  show ?thesis
    using
      point_vertex_composition [of 2 "nearest_clamp (encode_poses [translation_pose 0 1 0])"
        "translation_pose 1 0 0" identity_pose "Vec3 1 0 0" "Vec3 0 0 3" 0
        "Vec4 0 0 0 1" "Vec4 0 0 0 0"]
      point_vertex_composition [of "-1" "nearest_clamp (encode_poses [translation_pose 0 1 0])"
        "translation_pose 1 0 0" identity_pose "Vec3 1 0 0" "Vec3 0 0 3" 0
        "Vec4 0 0 0 1" "Vec4 0 0 0 0"]
    unfolding p
    by (simp add: translation_pose_def identity_pose_def mat4_mul_def mat4_mul_vec_def
        vec4_add_def vec4_scale_def vec4_of3_def vec3_add_def vec3_scale_def)
qed

subsection \<open>Ring vertex stage\<close>

text \<open>
  C10. For every ring vertex and every camera matrix, the clip-space position written by the
  ring vertex stage has its \<^verbatim>\<open>z\<close> equal to its \<^verbatim>\<open>w\<close>, and that \<^verbatim>\<open>w\<close> is the one of
  the projected vertex: the vertex lies on the far clip plane.
\<close>

theorem ring_vertex_on_far_plane:
  "z4 (ring_gl_Position (ring_vertex_shader proj_view ring_xyz))
     = w4 (ring_gl_Position (ring_vertex_shader proj_view ring_xyz))
   \<and> w4 (ring_gl_Position (ring_vertex_shader proj_view ring_xyz))
     = w4 (mat4_mul_vec proj_view (vec4_of3 ring_xyz 1))"
  by (simp add: ring_vertex_shader_def Let_def assign_z_def)

subsection \<open>Point fragment stage\<close>

















text \<open>
  In exact arithmetic the point fragment stage is the alpha \<^emph>\<open>over\<close> law of the spec,
  and the stage with rounding is that stage when nothing rounds.
\<close>

lemma point_fragment_exact_over:
  "point_fragment_shader mono' palette key msk =
     \<lparr> color_rgb =
         spec_over_rgb (rgb msk) (a4 msk)
           (if mono' then rgb (texture palette (Vec2 (r4 key) 1)) else rgb key) (a4 key),
       color_a = spec_over_alpha (a4 msk) (a4 key) \<rparr>"
  by (simp add: point_fragment_shader_def base_color_def spec_over_rgb_def spec_over_alpha_def
      Let_def vec3_scale_def vec3_add_def algebra_simps)

lemma point_fragment_shader_exact:
  "point_fragment_shader_fl (\<lambda>x. x) mono' palette key msk
     = point_fragment_shader mono' palette key msk"
  by (simp add: point_fragment_shader_fl_def point_fragment_shader_def base_color_def Let_def
      vec3_scale_fl_def vec3_add_fl_def vec3_div_fl_def vec3_scale_def vec3_add_def vec3_div_def)










text \<open>
  C9, as the claim states it, fails: under the identity palette the key
  \<open>(0.2, 0.5, 0.7, 1)\<close> resolves to the grey \<open>(0.2, 0.2, 0.2)\<close> on the palette path
  and to \<open>(0.2, 0.5, 0.7)\<close> on the direct path.
\<close>

theorem palette_path_differs_from_direct:
  "base_color True identity_palette (Vec4 0.2 0.5 0.7 1)
     \<noteq> base_color False identity_palette (Vec4 0.2 0.5 0.7 1)"
  by (simp add: base_color_def texture_def identity_palette_def rgb_def)

text \<open>
  The palette path reads \<open>key.r\<close> only, so whatever the palette is, some key resolves
  differently on the two paths.
\<close>

lemma no_palette_matches_direct:
  "\<exists>key. base_color True palette key \<noteq> base_color False palette key"
proof -
  have "base_color True palette (Vec4 0 0 0 1) = base_color True palette (Vec4 0 1 0 1)"
    by (simp add: base_color_def)
  moreover have "base_color False palette (Vec4 0 0 0 1) \<noteq> base_color False palette (Vec4 0 1 0 1)"
    by (simp add: base_color_def rgb_def)
  ultimately show ?thesis by metis
qed

text \<open>
  C9, amended. When the palette maps every key value \<open>x\<close> to the grey \<open>(x, x, x)\<close>,
  the palette path resolves a key to \<open>(key.r, key.r, key.r)\<close>; it agrees with the direct
  path exactly for the keys whose three colour components are equal.
\<close>

theorem palette_path_agrees_on_grey:
  assumes "\<forall>x. rgb (texture palette (Vec2 x 1)) = vec3_bcast x"
  shows "base_color True palette key = vec3_bcast (r4 key)
    \<and> (base_color True palette key = base_color False palette key
         \<longleftrightarrow> y4 key = r4 key \<and> z4 key = r4 key)"
  using assms by (auto simp add: base_color_def rgb_def vec3_bcast_def)

theorem palette_path_agrees_on_grey_witness:
  "(\<forall>x. rgb (texture identity_palette (Vec2 x 1)) = vec3_bcast x)
   \<and> base_color True identity_palette (Vec4 0.3 0.3 0.3 1) = Vec3 0.3 0.3 0.3
   \<and> base_color True identity_palette (Vec4 0.3 0.3 0.3 1)
       = base_color False identity_palette (Vec4 0.3 0.3 0.3 1)"
proof -
  have h: "\<forall>x. rgb (texture identity_palette (Vec2 x 1)) = vec3_bcast x"
    by (simp add: texture_def identity_palette_def rgb_def vec3_bcast_def)
  note t = palette_path_agrees_on_grey [OF h, of "Vec4 0.3 0.3 0.3 1"]
  have a: "base_color True identity_palette (Vec4 0.3 0.3 0.3 1) = Vec3 0.3 0.3 0.3"
    using t [THEN conjunct1] by (simp add: vec3_bcast_def)
  have b: "base_color True identity_palette (Vec4 0.3 0.3 0.3 1)
       = base_color False identity_palette (Vec4 0.3 0.3 0.3 1)"
    using t [THEN conjunct2] by simp
  from h a b show ?thesis
    by blast
qed

subsection \<open>Image fragment stage\<close>

text \<open>
  C4. The image fragment stage does not weight the image colour by the image alpha, as
  the \<^emph>\<open>over\<close> law and the point fragment stage do. For an image texel
  \<open>(0.5, 0.5, 0.5, 0.5)\<close> under a fully transparent mask, with \<^verbatim>\<open>use_palette\<close> and
  \<^verbatim>\<open>mono\<close> both false, the stage outputs the colour \<open>(1, 1, 1)\<close> with alpha
  \<open>0.5\<close>, where the law gives the colour \<open>(0.5, 0.5, 0.5)\<close> of the image.
\<close>

theorem image_fragment_drops_base_alpha:
  "image_fragment_shader False False (uniform_sampler (Vec4 0.5 0.5 0.5 0.5))
       (uniform_sampler (Vec4 0 0 0 0)) identity_palette (Vec2 0 0)
     = \<lparr> color_rgb = Some (Vec3 1 1 1), color_a = 0.5 \<rparr>
   \<and> spec_over_rgb (Vec3 0 0 0) 0 (Vec3 0.5 0.5 0.5) 0.5 = Some (Vec3 0.5 0.5 0.5)
   \<and> spec_over_alpha 0 0.5 = 0.5"
  by (simp add: image_fragment_shader_def Let_def texture_def uniform_sampler_def rgb_def
      vec3_scale_def vec3_add_def vec3_div_def spec_over_rgb_def spec_over_alpha_def)

text \<open>What the image fragment stage computes when the image is opaque, and when the mask is
  fully transparent.\<close>

lemma image_fragment_opaque_image:
  assumes "a4 (texture img uv) = 1"
  shows "image_fragment_shader m' use_palette img msk palette uv =
     \<lparr> color_rgb =
         spec_over_rgb (rgb (texture msk uv)) (a4 (texture msk uv))
           (if m' then (if use_palette then rgb (texture palette (Vec2 (r4 (texture img uv)) 1))
                        else vec3_bcast (r4 (texture img uv)))
            else rgb (texture img uv)) 1,
       color_a = 1 \<rparr>"
  using assms
  by (simp add: image_fragment_shader_def Let_def spec_over_rgb_def spec_over_alpha_def)

lemma image_fragment_transparent_mask:
  assumes "a4 (texture msk uv) = 0" and "a4 (texture img uv) \<noteq> 0"
  shows "image_fragment_shader False False img msk palette uv =
     \<lparr> color_rgb = vec3_div (rgb (texture img uv)) (a4 (texture img uv)),
       color_a = a4 (texture img uv) \<rparr>"
  using assms
  by (cases "rgb (texture img uv)")
     (simp add: image_fragment_shader_def Let_def vec3_scale_def vec3_add_def vec3_div_def)

subsection \<open>Zero output alpha\<close>

text \<open>
  C5, as the claim states it, fails: in both fragment stages the division by the output
  alpha is evaluated when that alpha is zero. Nothing guards it.
\<close>

theorem compositor_zero_alpha_unguarded:
  "color_rgb (point_fragment_shader True identity_palette (Vec4 0.5 0 0 0) (Vec4 0 0 0 0)) = None
   \<and> color_rgb (image_fragment_shader True True (uniform_sampler (Vec4 0.5 0 0 0))
        (uniform_sampler (Vec4 0 0 0 0)) identity_palette (Vec2 0 0)) = None"
  by (simp add: point_fragment_shader_def image_fragment_shader_def Let_def texture_def
      uniform_sampler_def vec3_div_def)

text \<open>
  C5, amended. For a mask alpha of zero and a base alpha of zero, the output alpha of the
  point fragment stage and of the image fragment stage is zero, and the RGB output of both
  is the unguarded division by that zero: GLSL leaves its value unspecified.
\<close>

theorem compositor_zero_alpha:
  "(a4 msk = 0 \<and> a4 key = 0 \<longrightarrow>
      color_a (point_fragment_shader m' palette key msk) = 0
      \<and> color_rgb (point_fragment_shader m' palette key msk) = None)
   \<and> (a4 (texture msk_s uv) = 0 \<and> a4 (texture img uv) = 0 \<longrightarrow>
      color_a (image_fragment_shader m' use_palette img msk_s palette uv) = 0
      \<and> color_rgb (image_fragment_shader m' use_palette img msk_s palette uv) = None)"
  by (simp add: point_fragment_shader_def image_fragment_shader_def Let_def vec3_div_def)

theorem compositor_zero_alpha_witness:
  "a4 (Vec4 1 0 0 0) = 0 \<and> a4 (Vec4 0.2 0.4 0.6 0) = 0
   \<and> color_a (point_fragment_shader False identity_palette (Vec4 0.2 0.4 0.6 0) (Vec4 1 0 0 0)) = 0
   \<and> color_rgb (point_fragment_shader False identity_palette (Vec4 0.2 0.4 0.6 0) (Vec4 1 0 0 0)) = None
   \<and> a4 (texture (uniform_sampler (Vec4 1 0 0 0)) (Vec2 0 0)) = 0
   \<and> a4 (texture (uniform_sampler (Vec4 0.2 0.4 0.6 0)) (Vec2 0 0)) = 0
   \<and> color_a (image_fragment_shader False False (uniform_sampler (Vec4 0.2 0.4 0.6 0))
         (uniform_sampler (Vec4 1 0 0 0)) identity_palette (Vec2 0 0)) = 0
   \<and> color_rgb (image_fragment_shader False False (uniform_sampler (Vec4 0.2 0.4 0.6 0))
         (uniform_sampler (Vec4 1 0 0 0)) identity_palette (Vec2 0 0)) = None"
  using compositor_zero_alpha [of "Vec4 1 0 0 0" "Vec4 0.2 0.4 0.6 0" False identity_palette
      "uniform_sampler (Vec4 1 0 0 0)" "Vec2 0 0" "uniform_sampler (Vec4 0.2 0.4 0.6 0)" False]
  by (simp add: texture_def uniform_sampler_def)

subsection \<open>Ring fragment stage\<close>

lemma length2_nonneg: "0 \<le> length2 v"
  by (simp add: length2_def)

lemma length2_x_axis: "length2 (Vec2 a 0) = \<bar>a\<bar>"
  by (simp add: length2_def)

lemma glsl_round_one: "glsl_round h 1 = 1"
  by (simp add: glsl_round_def)

lemma glsl_round_half: "glsl_round h (1/2) = (if h then 1 else 0)"
proof -
  have "frac (1/2 :: real) = 1/2"
    by (simp add: frac_def)
  moreover have "\<lceil>1/2 :: real\<rceil> = 1" by linarith
  ultimately show ?thesis
    by (simp add: glsl_round_def)
qed

lemma clamp_le: "lo \<le> hi \<Longrightarrow> x \<le> hi \<Longrightarrow> clamp x lo hi \<le> max x lo"
  by (simp add: clamp_def)

lemma ring_clamped_weight_le:
  assumes "ring_clamped_weight h ring_range th radius len = Some w"
  shows "w \<le> max th 0"
  using assms
  by (auto simp add: ring_clamped_weight_def clamp_def Let_def split: option.splits)

lemma length2_3_4: "length2 (Vec2 3 4) = 5"
proof -
  have "sqrt 25 = 5"
    by (rule real_sqrt_unique) simp_all
  then show ?thesis
    by (simp add: length2_def)
qed

text \<open>
  C8, as the claim states it, fails: with \<^verbatim>\<open>ring_range = 5\<close> and
  \<^verbatim>\<open>ring_thickness = 0.1\<close>, a fragment at radius 2.5 whose radius changes by 50 units
  per pixel gets the line weight 0.05, whichever way \<^verbatim>\<open>round\<close> breaks the tie.
\<close>

theorem ring_half_range_weight_positive:
  "length2 (Vec2 2.5 0) = 2.5
   \<and> ring_line_weight True 5 0.1 (Vec2 2.5 0) 50 0 = Some 0.05
   \<and> ring_line_weight False 5 0.1 (Vec2 2.5 0) 50 0 = Some 0.05"
  by (simp add: ring_line_weight_def Let_def length2_x_axis ring_clamped_weight_def
      float_div_def glsl_round_half clamp_def)

text \<open>
  C8, amended. When \<^verbatim>\<open>ring_range\<close> and the length of the screen-space gradient of the
  radius are not zero, the line weight is
  \<open>clamp (ring_thickness - |radius - round (radius / ring_range) * ring_range| / |gradient|) 0 1\<close>,
  and zero when the radius is above 1000 or below a tenth of \<^verbatim>\<open>ring_range\<close>. With
  \<^verbatim>\<open>ring_range = 5\<close> and \<^verbatim>\<open>ring_thickness = 0.1\<close>: a fragment at radius 5 gets the
  weight 0.1, which no fragment exceeds; a fragment at radius 2.5 gets the weight 0 when
  the gradient is at most 25 units per pixel.
\<close>

theorem ring_line_weight_formula:
  "(ring_range \<noteq> 0 \<and> length2 (Vec2 gx gy) \<noteq> 0 \<longrightarrow>
      ring_line_weight h ring_range th xy gx gy =
        Some (if length2 xy > 1000 \<or> length2 xy < ring_range * 0.1 then 0
              else clamp (th - \<bar>length2 xy - glsl_round h (length2 xy / ring_range) * ring_range\<bar>
                               / length2 (Vec2 gx gy)) 0 1))
   \<and> (length2 xy = 5 \<and> length2 (Vec2 gx gy) \<noteq> 0 \<longrightarrow>
        ring_line_weight h 5 0.1 xy gx gy = Some 0.1)
   \<and> (length2 xy = 2.5 \<and> length2 (Vec2 gx gy) \<noteq> 0 \<and> length2 (Vec2 gx gy) \<le> 25 \<longrightarrow>
        ring_line_weight h 5 0.1 xy gx gy = Some 0)
   \<and> (ring_line_weight h 5 0.1 xy gx gy = Some w \<longrightarrow> w \<le> 0.1)"
proof (intro conjI impI)
  assume "ring_range \<noteq> 0 \<and> length2 (Vec2 gx gy) \<noteq> 0"
  moreover have "0 \<le> length2 (Vec2 gx gy)"
    by (rule length2_nonneg)
  ultimately show "ring_line_weight h ring_range th xy gx gy =
        Some (if length2 xy > 1000 \<or> length2 xy < ring_range * 0.1 then 0
              else clamp (th - \<bar>length2 xy - glsl_round h (length2 xy / ring_range) * ring_range\<bar>
                               / length2 (Vec2 gx gy)) 0 1)"
    by (simp add: ring_line_weight_def Let_def ring_clamped_weight_def float_div_def)
next
  assume "length2 xy = 5 \<and> length2 (Vec2 gx gy) \<noteq> 0"
  then show "ring_line_weight h 5 0.1 xy gx gy = Some 0.1"
    by (simp add: ring_line_weight_def Let_def ring_clamped_weight_def float_div_def
        glsl_round_one clamp_def)
next
  assume a: "length2 xy = 2.5 \<and> length2 (Vec2 gx gy) \<noteq> 0 \<and> length2 (Vec2 gx gy) \<le> 25"
  define len where "len = length2 (Vec2 gx gy)"
  have r: "length2 xy = 5/2"
    using a by simp
  have pos: "0 < len" and le: "len \<le> 25"
    using a length2_nonneg [of "Vec2 gx gy"] by (simp_all add: len_def)
  have "1/10 \<le> (5/2) / len"
    using pos le by (simp add: field_simps)
  then have c: "clamp (1/10 - (5/2) / len) 0 1 = 0"
    by (simp add: clamp_def)
  have d: "\<bar>(5 / 2 - glsl_round h (1/2) * 5) / len\<bar> = (5/2) / len"
    using pos by (simp add: glsl_round_half)
  have "ring_clamped_weight h 5 (1/10) (5/2) len = Some 0"
    using pos c d by (simp add: ring_clamped_weight_def float_div_def)
  then show "ring_line_weight h 5 0.1 xy gx gy = Some 0"
    unfolding ring_line_weight_def Let_def r len_def by simp
next
  assume "ring_line_weight h 5 0.1 xy gx gy = Some w"
  then show "w \<le> 0.1"
    by (auto simp add: ring_line_weight_def Let_def split: if_splits
        dest: ring_clamped_weight_le)
qed

theorem ring_line_weight_formula_witness:
  "(5::real) \<noteq> 0 \<and> length2 (Vec2 1 0) \<noteq> 0
   \<and> length2 (Vec2 3 4) = 5
   \<and> ring_line_weight True 5 0.1 (Vec2 3 4) 1 0 = Some 0.1
   \<and> length2 (Vec2 2.5 0) = 2.5 \<and> length2 (Vec2 1 0) \<le> 25
   \<and> ring_line_weight True 5 0.1 (Vec2 2.5 0) 1 0 = Some 0
   \<and> (0.1::real) \<le> 0.1"
proof -
  have g: "length2 (Vec2 1 0) \<noteq> 0" and g25: "length2 (Vec2 1 0) \<le> 25"
    by (simp_all add: length2_x_axis)
  have r: "length2 (Vec2 2.5 0) = 2.5"
    by (simp add: length2_x_axis)
  note t5 = ring_line_weight_formula [of 5 1 0 True "0.1" "Vec2 3 4" "0.1"]
  note t2 = ring_line_weight_formula [of 5 1 0 True "0.1" "Vec2 2.5 0" 0]
  have w5: "ring_line_weight True 5 0.1 (Vec2 3 4) 1 0 = Some 0.1"
    using t5 [THEN conjunct2, THEN conjunct1, rule_format] length2_3_4 g by blast
  have w2: "ring_line_weight True 5 0.1 (Vec2 2.5 0) 1 0 = Some 0"
    using t2 [THEN conjunct2, THEN conjunct2, THEN conjunct1, rule_format] r g g25 by blast
  have m: "(0.1::real) \<le> 0.1"
    using t5 [THEN conjunct2, THEN conjunct2, THEN conjunct2, rule_format, OF w5] .
  from g length2_3_4 w5 r g25 w2 m show ?thesis
    by simp
qed

subsection \<open>Texture upload\<close>

lemma to_GLsizei_small:
  assumes "uint n < 2 ^ 31"
  shows "to_GLsizei n = uint n"
proof -
  have "to_GLsizei n = signed_take_bit 31 (uint n)"
    by (simp add: to_GLsizei_def signed_ucast_eq)
  also have "\<dots> = uint n"
  proof (rule signed_take_bit_int_eq_self)
    show "- (2 ^ 31) \<le> uint n"
      by (rule order_trans [of _ 0]) simp_all
    show "uint n < 2 ^ 31"
      by (fact assms)
  qed
  finally show ?thesis .
qed

lemma glBindTexture_bound:
  "binding_2d (glBindTexture GL_TEXTURE_2D name s) = name"
  "bound_object (glBindTexture GL_TEXTURE_2D name s)
     = Some (case texture_objects s name of None \<Rightarrow> new_texture_object | Some obj \<Rightarrow> obj)"
  by (simp_all add: glBindTexture_def bound_object_def split: option.split)

lemma glTexParameteri_bound:
  "binding_2d (glTexParameteri GL_TEXTURE_2D pname param s) = binding_2d s"
  "bound_object (glTexParameteri GL_TEXTURE_2D pname param s)
     = map_option (set_tex_parameter pname param) (bound_object s)"
  by (simp_all add: glTexParameteri_def bound_object_def split: option.split)

lemma glTexImage2D_bound:
  "binding_2d (glTexImage2D GL_TEXTURE_2D level internalformat width height border format
       type' data s) = binding_2d s"
  "bound_object (glTexImage2D GL_TEXTURE_2D level internalformat width height border format
       type' data s)
     = map_option
         (\<lambda>obj. obj\<lparr> levels := (levels obj)(level \<mapsto>
            \<lparr> image_internal_format = internalformat, image_width = width,
              image_height = height, image_border = border, image_format = format,
              image_type = type', image_data = data \<rparr>) \<rparr>)
         (bound_object s)"
  by (simp_all add: glTexImage2D_def bound_object_def split: option.split)

lemma load_texture_bound:
  "binding_2d (load_texture tex width height texture_id internal_format format type' s)
     = texture_id"
  "bound_object (load_texture tex width height texture_id internal_format format type' s)
     = Some ((case texture_objects s texture_id of
                None \<Rightarrow> new_texture_object | Some obj \<Rightarrow> obj)
             \<lparr> base_level := 0, max_level := 0,
               mag_filter := GL_NEAREST, min_filter := GL_NEAREST,
               wrap_s := GL_CLAMP_TO_EDGE, wrap_t := GL_CLAMP_TO_EDGE,
               levels := (levels (case texture_objects s texture_id of
                                    None \<Rightarrow> new_texture_object | Some obj \<Rightarrow> obj))
                 (0 \<mapsto> \<lparr> image_internal_format = internal_format,
                          image_width = to_GLsizei width, image_height = to_GLsizei height,
                          image_border = 0, image_format = format, image_type = type',
                          image_data = tex \<rparr>) \<rparr>)"
  unfolding load_texture_def Let_def
  by (simp_all only: glBindTexture_bound glTexParameteri_bound glTexImage2D_bound
      option.map set_tex_parameter.simps)
     simp

text \<open>
  C7. After every call of \<^verbatim>\<open>load_texture\<close>, whatever the array, the dimensions, the
  texture name, the formats and the state before: the texture is bound to
  \<^verbatim>\<open>GL_TEXTURE_2D\<close>; its base and maximum level are both 0; its magnification and
  minification filters are both \<^verbatim>\<open>GL_NEAREST\<close>; it wraps with
  \<^verbatim>\<open>GL_CLAMP_TO_EDGE\<close> on both axes; and its level 0 is the image the call was given.
  No argument of the call reaches the six sampling parameters.
\<close>

theorem load_texture_fixed_policy:
  "binding_2d (load_texture tex width height texture_id internal_format format type' s)
     = texture_id
   \<and> (\<exists>obj. texture_objects
               (load_texture tex width height texture_id internal_format format type' s)
               texture_id = Some obj
        \<and> base_level obj = 0 \<and> max_level obj = 0
        \<and> mag_filter obj = GL_NEAREST \<and> min_filter obj = GL_NEAREST
        \<and> wrap_s obj = GL_CLAMP_TO_EDGE \<and> wrap_t obj = GL_CLAMP_TO_EDGE
        \<and> levels obj 0 =
            Some \<lparr> image_internal_format = internal_format,
                   image_width = to_GLsizei width, image_height = to_GLsizei height,
                   image_border = 0, image_format = format, image_type = type',
                   image_data = tex \<rparr>)"
proof -
  let ?s = "load_texture tex width height texture_id internal_format format type' s"
  have "texture_objects ?s texture_id = bound_object ?s"
    by (simp add: bound_object_def load_texture_bound(1))
  then show ?thesis
    by (simp add: load_texture_bound)
qed

subsection \<open>Program builder\<close>

lemma c_str_take_log:
  "c_str (take (nat (info_log_length_of info - 1)) info) = c_str info"
  by (simp add: info_log_length_of_def)

lemma print_shader_log:
  "(if 0 < glGetShaderiv sh GL_INFO_LOG_LENGTH w
    then printf_line (glGetShaderInfoLog sh (glGetShaderiv sh GL_INFO_LOG_LENGTH w) w) w
    else w)
   = w\<lparr> stdout := stdout w @
         (case shaders w sh of None \<Rightarrow> [] | Some obj \<Rightarrow> printed_log (shader_info_log obj)) \<rparr>"
  by (auto simp add: glGetShaderiv_def glGetShaderInfoLog_def printf_line_def printed_log_def
      c_str_take_log info_log_length_of_def split: option.splits)

lemma print_program_log:
  "(if 0 < glGetProgramiv pr GL_INFO_LOG_LENGTH w
    then printf_line (glGetProgramInfoLog pr (glGetProgramiv pr GL_INFO_LOG_LENGTH w) w) w
    else w)
   = w\<lparr> stdout := stdout w @
         (case programs w pr of None \<Rightarrow> [] | Some p \<Rightarrow> printed_log (program_info_log p)) \<rparr>"
  by (auto simp add: glGetProgramiv_def glGetProgramInfoLog_def printf_line_def printed_log_def
      c_str_take_log info_log_length_of_def split: option.splits)


lemma load_shaders_closed_form:
  fixes n :: GLuint
  shows "load_shaders d vs fs \<lparr>shaders = S, programs = P, next_name = n, stdout = out\<rparr> =
     (n + 2, \<lparr>shaders = S(n := None, n + 1 := None), programs = P(n + 2 \<mapsto> \<lparr>attached_shaders = [], link_status = fst (link_program d [compiled_stage d GL_VERTEX_SHADER vs, compiled_stage d GL_FRAGMENT_SHADER fs]), program_info_log = snd (link_program d [compiled_stage d GL_VERTEX_SHADER vs, compiled_stage d GL_FRAGMENT_SHADER fs])\<rparr>), next_name = n + 3, stdout = out @ printed_log (snd (compile_shader d GL_VERTEX_SHADER (c_str vs))) @ printed_log (snd (compile_shader d GL_FRAGMENT_SHADER (c_str fs))) @ printed_log (snd (link_program d [compiled_stage d GL_VERTEX_SHADER vs, compiled_stage d GL_FRAGMENT_SHADER fs]))\<rparr>)"
    (is "_ = (_, ?final)")
proof -
  let ?vr = "compile_shader d GL_VERTEX_SHADER (c_str vs)"
  let ?fr = "compile_shader d GL_FRAGMENT_SHADER (c_str fs)"
  let ?L = "link_program d
    [compiled_stage d GL_VERTEX_SHADER vs, compiled_stage d GL_FRAGMENT_SHADER fs]"
  have ne: "n + 1 \<noteq> n" "n \<noteq> n + 1"
    by simp_all
  have s1: "glCreateShader GL_VERTEX_SHADER \<lparr>shaders = S, programs = P, next_name = n, stdout = out\<rparr> = (n, \<lparr>shaders = S(n \<mapsto> \<lparr>shader_type = GL_VERTEX_SHADER, shader_source = [], compile_status = False, shader_info_log = [], delete_status = False, attach_count = 0\<rparr>), programs = P, next_name = n + 1, stdout = out\<rparr>)"
    by (simp add: glCreateShader_def)
  have s2: "glCreateShader GL_FRAGMENT_SHADER \<lparr>shaders = S(n \<mapsto> \<lparr>shader_type = GL_VERTEX_SHADER, shader_source = [], compile_status = False, shader_info_log = [], delete_status = False, attach_count = 0\<rparr>), programs = P, next_name = n + 1, stdout = out\<rparr> = (n + 1, \<lparr>shaders = S(n \<mapsto> \<lparr>shader_type = GL_VERTEX_SHADER, shader_source = [], compile_status = False, shader_info_log = [], delete_status = False, attach_count = 0\<rparr>, n + 1 \<mapsto> \<lparr>shader_type = GL_FRAGMENT_SHADER, shader_source = [], compile_status = False, shader_info_log = [], delete_status = False, attach_count = 0\<rparr>), programs = P, next_name = n + 2, stdout = out\<rparr>)"
    by (simp add: glCreateShader_def)
  have s3: "glShaderSource n [c_str vs] \<lparr>shaders = S(n \<mapsto> \<lparr>shader_type = GL_VERTEX_SHADER, shader_source = [], compile_status = False, shader_info_log = [], delete_status = False, attach_count = 0\<rparr>, n + 1 \<mapsto> \<lparr>shader_type = GL_FRAGMENT_SHADER, shader_source = [], compile_status = False, shader_info_log = [], delete_status = False, attach_count = 0\<rparr>), programs = P, next_name = n + 2, stdout = out\<rparr> = \<lparr>shaders = S(n \<mapsto> \<lparr>shader_type = GL_VERTEX_SHADER, shader_source = c_str vs, compile_status = False, shader_info_log = [], delete_status = False, attach_count = 0\<rparr>, n + 1 \<mapsto> \<lparr>shader_type = GL_FRAGMENT_SHADER, shader_source = [], compile_status = False, shader_info_log = [], delete_status = False, attach_count = 0\<rparr>), programs = P, next_name = n + 2, stdout = out\<rparr>"
    by (simp add: glShaderSource_def ne fun_upd_twist)
  have s4: "glCompileShader d n \<lparr>shaders = S(n \<mapsto> \<lparr>shader_type = GL_VERTEX_SHADER, shader_source = c_str vs, compile_status = False, shader_info_log = [], delete_status = False, attach_count = 0\<rparr>, n + 1 \<mapsto> \<lparr>shader_type = GL_FRAGMENT_SHADER, shader_source = [], compile_status = False, shader_info_log = [], delete_status = False, attach_count = 0\<rparr>), programs = P, next_name = n + 2, stdout = out\<rparr> = \<lparr>shaders = S(n \<mapsto> \<lparr>shader_type = GL_VERTEX_SHADER, shader_source = c_str vs, compile_status = fst ?vr, shader_info_log = snd ?vr, delete_status = False, attach_count = 0\<rparr>, n + 1 \<mapsto> \<lparr>shader_type = GL_FRAGMENT_SHADER, shader_source = [], compile_status = False, shader_info_log = [], delete_status = False, attach_count = 0\<rparr>), programs = P, next_name = n + 2, stdout = out\<rparr>"
    by (simp add: glCompileShader_def ne fun_upd_twist split_beta)
  have s5: "(if 0 < glGetShaderiv n GL_INFO_LOG_LENGTH \<lparr>shaders = S(n \<mapsto> \<lparr>shader_type = GL_VERTEX_SHADER, shader_source = c_str vs, compile_status = fst ?vr, shader_info_log = snd ?vr, delete_status = False, attach_count = 0\<rparr>, n + 1 \<mapsto> \<lparr>shader_type = GL_FRAGMENT_SHADER, shader_source = [], compile_status = False, shader_info_log = [], delete_status = False, attach_count = 0\<rparr>), programs = P, next_name = n + 2, stdout = out\<rparr> then printf_line (glGetShaderInfoLog n (glGetShaderiv n GL_INFO_LOG_LENGTH \<lparr>shaders = S(n \<mapsto> \<lparr>shader_type = GL_VERTEX_SHADER, shader_source = c_str vs, compile_status = fst ?vr, shader_info_log = snd ?vr, delete_status = False, attach_count = 0\<rparr>, n + 1 \<mapsto> \<lparr>shader_type = GL_FRAGMENT_SHADER, shader_source = [], compile_status = False, shader_info_log = [], delete_status = False, attach_count = 0\<rparr>), programs = P, next_name = n + 2, stdout = out\<rparr>) \<lparr>shaders = S(n \<mapsto> \<lparr>shader_type = GL_VERTEX_SHADER, shader_source = c_str vs, compile_status = fst ?vr, shader_info_log = snd ?vr, delete_status = False, attach_count = 0\<rparr>, n + 1 \<mapsto> \<lparr>shader_type = GL_FRAGMENT_SHADER, shader_source = [], compile_status = False, shader_info_log = [], delete_status = False, attach_count = 0\<rparr>), programs = P, next_name = n + 2, stdout = out\<rparr>) \<lparr>shaders = S(n \<mapsto> \<lparr>shader_type = GL_VERTEX_SHADER, shader_source = c_str vs, compile_status = fst ?vr, shader_info_log = snd ?vr, delete_status = False, attach_count = 0\<rparr>, n + 1 \<mapsto> \<lparr>shader_type = GL_FRAGMENT_SHADER, shader_source = [], compile_status = False, shader_info_log = [], delete_status = False, attach_count = 0\<rparr>), programs = P, next_name = n + 2, stdout = out\<rparr> else \<lparr>shaders = S(n \<mapsto> \<lparr>shader_type = GL_VERTEX_SHADER, shader_source = c_str vs, compile_status = fst ?vr, shader_info_log = snd ?vr, delete_status = False, attach_count = 0\<rparr>, n + 1 \<mapsto> \<lparr>shader_type = GL_FRAGMENT_SHADER, shader_source = [], compile_status = False, shader_info_log = [], delete_status = False, attach_count = 0\<rparr>), programs = P, next_name = n + 2, stdout = out\<rparr>) = \<lparr>shaders = S(n \<mapsto> \<lparr>shader_type = GL_VERTEX_SHADER, shader_source = c_str vs, compile_status = fst ?vr, shader_info_log = snd ?vr, delete_status = False, attach_count = 0\<rparr>, n + 1 \<mapsto> \<lparr>shader_type = GL_FRAGMENT_SHADER, shader_source = [], compile_status = False, shader_info_log = [], delete_status = False, attach_count = 0\<rparr>), programs = P, next_name = n + 2, stdout = out @ printed_log (snd ?vr)\<rparr>"
    using print_shader_log [of "n" "\<lparr>shaders = S(n \<mapsto> \<lparr>shader_type = GL_VERTEX_SHADER, shader_source = c_str vs, compile_status = fst ?vr, shader_info_log = snd ?vr, delete_status = False, attach_count = 0\<rparr>, n + 1 \<mapsto> \<lparr>shader_type = GL_FRAGMENT_SHADER, shader_source = [], compile_status = False, shader_info_log = [], delete_status = False, attach_count = 0\<rparr>), programs = P, next_name = n + 2, stdout = out\<rparr>"]
    by (simp add: ne)
  have s6: "glShaderSource (n + 1) [c_str fs] \<lparr>shaders = S(n \<mapsto> \<lparr>shader_type = GL_VERTEX_SHADER, shader_source = c_str vs, compile_status = fst ?vr, shader_info_log = snd ?vr, delete_status = False, attach_count = 0\<rparr>, n + 1 \<mapsto> \<lparr>shader_type = GL_FRAGMENT_SHADER, shader_source = [], compile_status = False, shader_info_log = [], delete_status = False, attach_count = 0\<rparr>), programs = P, next_name = n + 2, stdout = out @ printed_log (snd ?vr)\<rparr> = \<lparr>shaders = S(n \<mapsto> \<lparr>shader_type = GL_VERTEX_SHADER, shader_source = c_str vs, compile_status = fst ?vr, shader_info_log = snd ?vr, delete_status = False, attach_count = 0\<rparr>, n + 1 \<mapsto> \<lparr>shader_type = GL_FRAGMENT_SHADER, shader_source = c_str fs, compile_status = False, shader_info_log = [], delete_status = False, attach_count = 0\<rparr>), programs = P, next_name = n + 2, stdout = out @ printed_log (snd ?vr)\<rparr>"
    by (simp add: glShaderSource_def ne)
  have s7: "glCompileShader d (n + 1) \<lparr>shaders = S(n \<mapsto> \<lparr>shader_type = GL_VERTEX_SHADER, shader_source = c_str vs, compile_status = fst ?vr, shader_info_log = snd ?vr, delete_status = False, attach_count = 0\<rparr>, n + 1 \<mapsto> \<lparr>shader_type = GL_FRAGMENT_SHADER, shader_source = c_str fs, compile_status = False, shader_info_log = [], delete_status = False, attach_count = 0\<rparr>), programs = P, next_name = n + 2, stdout = out @ printed_log (snd ?vr)\<rparr> = \<lparr>shaders = S(n \<mapsto> \<lparr>shader_type = GL_VERTEX_SHADER, shader_source = c_str vs, compile_status = fst ?vr, shader_info_log = snd ?vr, delete_status = False, attach_count = 0\<rparr>, n + 1 \<mapsto> \<lparr>shader_type = GL_FRAGMENT_SHADER, shader_source = c_str fs, compile_status = fst ?fr, shader_info_log = snd ?fr, delete_status = False, attach_count = 0\<rparr>), programs = P, next_name = n + 2, stdout = out @ printed_log (snd ?vr)\<rparr>"
    by (simp add: glCompileShader_def ne split_beta)
  have s8: "(if 0 < glGetShaderiv (n + 1) GL_INFO_LOG_LENGTH \<lparr>shaders = S(n \<mapsto> \<lparr>shader_type = GL_VERTEX_SHADER, shader_source = c_str vs, compile_status = fst ?vr, shader_info_log = snd ?vr, delete_status = False, attach_count = 0\<rparr>, n + 1 \<mapsto> \<lparr>shader_type = GL_FRAGMENT_SHADER, shader_source = c_str fs, compile_status = fst ?fr, shader_info_log = snd ?fr, delete_status = False, attach_count = 0\<rparr>), programs = P, next_name = n + 2, stdout = out @ printed_log (snd ?vr)\<rparr> then printf_line (glGetShaderInfoLog (n + 1) (glGetShaderiv (n + 1) GL_INFO_LOG_LENGTH \<lparr>shaders = S(n \<mapsto> \<lparr>shader_type = GL_VERTEX_SHADER, shader_source = c_str vs, compile_status = fst ?vr, shader_info_log = snd ?vr, delete_status = False, attach_count = 0\<rparr>, n + 1 \<mapsto> \<lparr>shader_type = GL_FRAGMENT_SHADER, shader_source = c_str fs, compile_status = fst ?fr, shader_info_log = snd ?fr, delete_status = False, attach_count = 0\<rparr>), programs = P, next_name = n + 2, stdout = out @ printed_log (snd ?vr)\<rparr>) \<lparr>shaders = S(n \<mapsto> \<lparr>shader_type = GL_VERTEX_SHADER, shader_source = c_str vs, compile_status = fst ?vr, shader_info_log = snd ?vr, delete_status = False, attach_count = 0\<rparr>, n + 1 \<mapsto> \<lparr>shader_type = GL_FRAGMENT_SHADER, shader_source = c_str fs, compile_status = fst ?fr, shader_info_log = snd ?fr, delete_status = False, attach_count = 0\<rparr>), programs = P, next_name = n + 2, stdout = out @ printed_log (snd ?vr)\<rparr>) \<lparr>shaders = S(n \<mapsto> \<lparr>shader_type = GL_VERTEX_SHADER, shader_source = c_str vs, compile_status = fst ?vr, shader_info_log = snd ?vr, delete_status = False, attach_count = 0\<rparr>, n + 1 \<mapsto> \<lparr>shader_type = GL_FRAGMENT_SHADER, shader_source = c_str fs, compile_status = fst ?fr, shader_info_log = snd ?fr, delete_status = False, attach_count = 0\<rparr>), programs = P, next_name = n + 2, stdout = out @ printed_log (snd ?vr)\<rparr> else \<lparr>shaders = S(n \<mapsto> \<lparr>shader_type = GL_VERTEX_SHADER, shader_source = c_str vs, compile_status = fst ?vr, shader_info_log = snd ?vr, delete_status = False, attach_count = 0\<rparr>, n + 1 \<mapsto> \<lparr>shader_type = GL_FRAGMENT_SHADER, shader_source = c_str fs, compile_status = fst ?fr, shader_info_log = snd ?fr, delete_status = False, attach_count = 0\<rparr>), programs = P, next_name = n + 2, stdout = out @ printed_log (snd ?vr)\<rparr>) = \<lparr>shaders = S(n \<mapsto> \<lparr>shader_type = GL_VERTEX_SHADER, shader_source = c_str vs, compile_status = fst ?vr, shader_info_log = snd ?vr, delete_status = False, attach_count = 0\<rparr>, n + 1 \<mapsto> \<lparr>shader_type = GL_FRAGMENT_SHADER, shader_source = c_str fs, compile_status = fst ?fr, shader_info_log = snd ?fr, delete_status = False, attach_count = 0\<rparr>), programs = P, next_name = n + 2, stdout = out @ printed_log (snd ?vr) @ printed_log (snd ?fr)\<rparr>"
    using print_shader_log [of "n + 1" "\<lparr>shaders = S(n \<mapsto> \<lparr>shader_type = GL_VERTEX_SHADER, shader_source = c_str vs, compile_status = fst ?vr, shader_info_log = snd ?vr, delete_status = False, attach_count = 0\<rparr>, n + 1 \<mapsto> \<lparr>shader_type = GL_FRAGMENT_SHADER, shader_source = c_str fs, compile_status = fst ?fr, shader_info_log = snd ?fr, delete_status = False, attach_count = 0\<rparr>), programs = P, next_name = n + 2, stdout = out @ printed_log (snd ?vr)\<rparr>"]
    by (simp add: ne)
  have s9: "glCreateProgram \<lparr>shaders = S(n \<mapsto> \<lparr>shader_type = GL_VERTEX_SHADER, shader_source = c_str vs, compile_status = fst ?vr, shader_info_log = snd ?vr, delete_status = False, attach_count = 0\<rparr>, n + 1 \<mapsto> \<lparr>shader_type = GL_FRAGMENT_SHADER, shader_source = c_str fs, compile_status = fst ?fr, shader_info_log = snd ?fr, delete_status = False, attach_count = 0\<rparr>), programs = P, next_name = n + 2, stdout = out @ printed_log (snd ?vr) @ printed_log (snd ?fr)\<rparr> = (n + 2, \<lparr>shaders = S(n \<mapsto> \<lparr>shader_type = GL_VERTEX_SHADER, shader_source = c_str vs, compile_status = fst ?vr, shader_info_log = snd ?vr, delete_status = False, attach_count = 0\<rparr>, n + 1 \<mapsto> \<lparr>shader_type = GL_FRAGMENT_SHADER, shader_source = c_str fs, compile_status = fst ?fr, shader_info_log = snd ?fr, delete_status = False, attach_count = 0\<rparr>), programs = P(n + 2 \<mapsto> \<lparr>attached_shaders = [], link_status = False, program_info_log = []\<rparr>), next_name = n + 3, stdout = out @ printed_log (snd ?vr) @ printed_log (snd ?fr)\<rparr>)"
    by (simp add: glCreateProgram_def)
  have s10: "glAttachShader (n + 2) n \<lparr>shaders = S(n \<mapsto> \<lparr>shader_type = GL_VERTEX_SHADER, shader_source = c_str vs, compile_status = fst ?vr, shader_info_log = snd ?vr, delete_status = False, attach_count = 0\<rparr>, n + 1 \<mapsto> \<lparr>shader_type = GL_FRAGMENT_SHADER, shader_source = c_str fs, compile_status = fst ?fr, shader_info_log = snd ?fr, delete_status = False, attach_count = 0\<rparr>), programs = P(n + 2 \<mapsto> \<lparr>attached_shaders = [], link_status = False, program_info_log = []\<rparr>), next_name = n + 3, stdout = out @ printed_log (snd ?vr) @ printed_log (snd ?fr)\<rparr> = \<lparr>shaders = S(n \<mapsto> \<lparr>shader_type = GL_VERTEX_SHADER, shader_source = c_str vs, compile_status = fst ?vr, shader_info_log = snd ?vr, delete_status = False, attach_count = 1\<rparr>, n + 1 \<mapsto> \<lparr>shader_type = GL_FRAGMENT_SHADER, shader_source = c_str fs, compile_status = fst ?fr, shader_info_log = snd ?fr, delete_status = False, attach_count = 0\<rparr>), programs = P(n + 2 \<mapsto> \<lparr>attached_shaders = [n], link_status = False, program_info_log = []\<rparr>), next_name = n + 3, stdout = out @ printed_log (snd ?vr) @ printed_log (snd ?fr)\<rparr>"
    by (simp add: glAttachShader_def ne fun_upd_twist)
  have s11: "glAttachShader (n + 2) (n + 1) \<lparr>shaders = S(n \<mapsto> \<lparr>shader_type = GL_VERTEX_SHADER, shader_source = c_str vs, compile_status = fst ?vr, shader_info_log = snd ?vr, delete_status = False, attach_count = 1\<rparr>, n + 1 \<mapsto> \<lparr>shader_type = GL_FRAGMENT_SHADER, shader_source = c_str fs, compile_status = fst ?fr, shader_info_log = snd ?fr, delete_status = False, attach_count = 0\<rparr>), programs = P(n + 2 \<mapsto> \<lparr>attached_shaders = [n], link_status = False, program_info_log = []\<rparr>), next_name = n + 3, stdout = out @ printed_log (snd ?vr) @ printed_log (snd ?fr)\<rparr> = \<lparr>shaders = S(n \<mapsto> \<lparr>shader_type = GL_VERTEX_SHADER, shader_source = c_str vs, compile_status = fst ?vr, shader_info_log = snd ?vr, delete_status = False, attach_count = 1\<rparr>, n + 1 \<mapsto> \<lparr>shader_type = GL_FRAGMENT_SHADER, shader_source = c_str fs, compile_status = fst ?fr, shader_info_log = snd ?fr, delete_status = False, attach_count = 1\<rparr>), programs = P(n + 2 \<mapsto> \<lparr>attached_shaders = [n, n + 1], link_status = False, program_info_log = []\<rparr>), next_name = n + 3, stdout = out @ printed_log (snd ?vr) @ printed_log (snd ?fr)\<rparr>"
    by (simp add: glAttachShader_def ne)
  have s12: "glLinkProgram d (n + 2) \<lparr>shaders = S(n \<mapsto> \<lparr>shader_type = GL_VERTEX_SHADER, shader_source = c_str vs, compile_status = fst ?vr, shader_info_log = snd ?vr, delete_status = False, attach_count = 1\<rparr>, n + 1 \<mapsto> \<lparr>shader_type = GL_FRAGMENT_SHADER, shader_source = c_str fs, compile_status = fst ?fr, shader_info_log = snd ?fr, delete_status = False, attach_count = 1\<rparr>), programs = P(n + 2 \<mapsto> \<lparr>attached_shaders = [n, n + 1], link_status = False, program_info_log = []\<rparr>), next_name = n + 3, stdout = out @ printed_log (snd ?vr) @ printed_log (snd ?fr)\<rparr> = \<lparr>shaders = S(n \<mapsto> \<lparr>shader_type = GL_VERTEX_SHADER, shader_source = c_str vs, compile_status = fst ?vr, shader_info_log = snd ?vr, delete_status = False, attach_count = 1\<rparr>, n + 1 \<mapsto> \<lparr>shader_type = GL_FRAGMENT_SHADER, shader_source = c_str fs, compile_status = fst ?fr, shader_info_log = snd ?fr, delete_status = False, attach_count = 1\<rparr>), programs = P(n + 2 \<mapsto> \<lparr>attached_shaders = [n, n + 1], link_status = fst ?L, program_info_log = snd ?L\<rparr>), next_name = n + 3, stdout = out @ printed_log (snd ?vr) @ printed_log (snd ?fr)\<rparr>"
    by (simp add: glLinkProgram_def ne split_beta List.map_filter_simps compiled_stage_def)
  have s13: "(if 0 < glGetProgramiv (n + 2) GL_INFO_LOG_LENGTH \<lparr>shaders = S(n \<mapsto> \<lparr>shader_type = GL_VERTEX_SHADER, shader_source = c_str vs, compile_status = fst ?vr, shader_info_log = snd ?vr, delete_status = False, attach_count = 1\<rparr>, n + 1 \<mapsto> \<lparr>shader_type = GL_FRAGMENT_SHADER, shader_source = c_str fs, compile_status = fst ?fr, shader_info_log = snd ?fr, delete_status = False, attach_count = 1\<rparr>), programs = P(n + 2 \<mapsto> \<lparr>attached_shaders = [n, n + 1], link_status = fst ?L, program_info_log = snd ?L\<rparr>), next_name = n + 3, stdout = out @ printed_log (snd ?vr) @ printed_log (snd ?fr)\<rparr> then printf_line (glGetProgramInfoLog (n + 2) (glGetProgramiv (n + 2) GL_INFO_LOG_LENGTH \<lparr>shaders = S(n \<mapsto> \<lparr>shader_type = GL_VERTEX_SHADER, shader_source = c_str vs, compile_status = fst ?vr, shader_info_log = snd ?vr, delete_status = False, attach_count = 1\<rparr>, n + 1 \<mapsto> \<lparr>shader_type = GL_FRAGMENT_SHADER, shader_source = c_str fs, compile_status = fst ?fr, shader_info_log = snd ?fr, delete_status = False, attach_count = 1\<rparr>), programs = P(n + 2 \<mapsto> \<lparr>attached_shaders = [n, n + 1], link_status = fst ?L, program_info_log = snd ?L\<rparr>), next_name = n + 3, stdout = out @ printed_log (snd ?vr) @ printed_log (snd ?fr)\<rparr>) \<lparr>shaders = S(n \<mapsto> \<lparr>shader_type = GL_VERTEX_SHADER, shader_source = c_str vs, compile_status = fst ?vr, shader_info_log = snd ?vr, delete_status = False, attach_count = 1\<rparr>, n + 1 \<mapsto> \<lparr>shader_type = GL_FRAGMENT_SHADER, shader_source = c_str fs, compile_status = fst ?fr, shader_info_log = snd ?fr, delete_status = False, attach_count = 1\<rparr>), programs = P(n + 2 \<mapsto> \<lparr>attached_shaders = [n, n + 1], link_status = fst ?L, program_info_log = snd ?L\<rparr>), next_name = n + 3, stdout = out @ printed_log (snd ?vr) @ printed_log (snd ?fr)\<rparr>) \<lparr>shaders = S(n \<mapsto> \<lparr>shader_type = GL_VERTEX_SHADER, shader_source = c_str vs, compile_status = fst ?vr, shader_info_log = snd ?vr, delete_status = False, attach_count = 1\<rparr>, n + 1 \<mapsto> \<lparr>shader_type = GL_FRAGMENT_SHADER, shader_source = c_str fs, compile_status = fst ?fr, shader_info_log = snd ?fr, delete_status = False, attach_count = 1\<rparr>), programs = P(n + 2 \<mapsto> \<lparr>attached_shaders = [n, n + 1], link_status = fst ?L, program_info_log = snd ?L\<rparr>), next_name = n + 3, stdout = out @ printed_log (snd ?vr) @ printed_log (snd ?fr)\<rparr> else \<lparr>shaders = S(n \<mapsto> \<lparr>shader_type = GL_VERTEX_SHADER, shader_source = c_str vs, compile_status = fst ?vr, shader_info_log = snd ?vr, delete_status = False, attach_count = 1\<rparr>, n + 1 \<mapsto> \<lparr>shader_type = GL_FRAGMENT_SHADER, shader_source = c_str fs, compile_status = fst ?fr, shader_info_log = snd ?fr, delete_status = False, attach_count = 1\<rparr>), programs = P(n + 2 \<mapsto> \<lparr>attached_shaders = [n, n + 1], link_status = fst ?L, program_info_log = snd ?L\<rparr>), next_name = n + 3, stdout = out @ printed_log (snd ?vr) @ printed_log (snd ?fr)\<rparr>) = \<lparr>shaders = S(n \<mapsto> \<lparr>shader_type = GL_VERTEX_SHADER, shader_source = c_str vs, compile_status = fst ?vr, shader_info_log = snd ?vr, delete_status = False, attach_count = 1\<rparr>, n + 1 \<mapsto> \<lparr>shader_type = GL_FRAGMENT_SHADER, shader_source = c_str fs, compile_status = fst ?fr, shader_info_log = snd ?fr, delete_status = False, attach_count = 1\<rparr>), programs = P(n + 2 \<mapsto> \<lparr>attached_shaders = [n, n + 1], link_status = fst ?L, program_info_log = snd ?L\<rparr>), next_name = n + 3, stdout = out @ printed_log (snd ?vr) @ printed_log (snd ?fr) @ printed_log (snd ?L)\<rparr>"
    using print_program_log [of "n + 2" "\<lparr>shaders = S(n \<mapsto> \<lparr>shader_type = GL_VERTEX_SHADER, shader_source = c_str vs, compile_status = fst ?vr, shader_info_log = snd ?vr, delete_status = False, attach_count = 1\<rparr>, n + 1 \<mapsto> \<lparr>shader_type = GL_FRAGMENT_SHADER, shader_source = c_str fs, compile_status = fst ?fr, shader_info_log = snd ?fr, delete_status = False, attach_count = 1\<rparr>), programs = P(n + 2 \<mapsto> \<lparr>attached_shaders = [n, n + 1], link_status = fst ?L, program_info_log = snd ?L\<rparr>), next_name = n + 3, stdout = out @ printed_log (snd ?vr) @ printed_log (snd ?fr)\<rparr>"]
    by (simp add: ne)
  have s14: "glDetachShader (n + 2) n \<lparr>shaders = S(n \<mapsto> \<lparr>shader_type = GL_VERTEX_SHADER, shader_source = c_str vs, compile_status = fst ?vr, shader_info_log = snd ?vr, delete_status = False, attach_count = 1\<rparr>, n + 1 \<mapsto> \<lparr>shader_type = GL_FRAGMENT_SHADER, shader_source = c_str fs, compile_status = fst ?fr, shader_info_log = snd ?fr, delete_status = False, attach_count = 1\<rparr>), programs = P(n + 2 \<mapsto> \<lparr>attached_shaders = [n, n + 1], link_status = fst ?L, program_info_log = snd ?L\<rparr>), next_name = n + 3, stdout = out @ printed_log (snd ?vr) @ printed_log (snd ?fr) @ printed_log (snd ?L)\<rparr> = \<lparr>shaders = S(n \<mapsto> \<lparr>shader_type = GL_VERTEX_SHADER, shader_source = c_str vs, compile_status = fst ?vr, shader_info_log = snd ?vr, delete_status = False, attach_count = 0\<rparr>, n + 1 \<mapsto> \<lparr>shader_type = GL_FRAGMENT_SHADER, shader_source = c_str fs, compile_status = fst ?fr, shader_info_log = snd ?fr, delete_status = False, attach_count = 1\<rparr>), programs = P(n + 2 \<mapsto> \<lparr>attached_shaders = [n + 1], link_status = fst ?L, program_info_log = snd ?L\<rparr>), next_name = n + 3, stdout = out @ printed_log (snd ?vr) @ printed_log (snd ?fr) @ printed_log (snd ?L)\<rparr>"
    by (simp add: glDetachShader_def ne fun_upd_twist)
  have s15: "glDetachShader (n + 2) (n + 1) \<lparr>shaders = S(n \<mapsto> \<lparr>shader_type = GL_VERTEX_SHADER, shader_source = c_str vs, compile_status = fst ?vr, shader_info_log = snd ?vr, delete_status = False, attach_count = 0\<rparr>, n + 1 \<mapsto> \<lparr>shader_type = GL_FRAGMENT_SHADER, shader_source = c_str fs, compile_status = fst ?fr, shader_info_log = snd ?fr, delete_status = False, attach_count = 1\<rparr>), programs = P(n + 2 \<mapsto> \<lparr>attached_shaders = [n + 1], link_status = fst ?L, program_info_log = snd ?L\<rparr>), next_name = n + 3, stdout = out @ printed_log (snd ?vr) @ printed_log (snd ?fr) @ printed_log (snd ?L)\<rparr> = \<lparr>shaders = S(n \<mapsto> \<lparr>shader_type = GL_VERTEX_SHADER, shader_source = c_str vs, compile_status = fst ?vr, shader_info_log = snd ?vr, delete_status = False, attach_count = 0\<rparr>, n + 1 \<mapsto> \<lparr>shader_type = GL_FRAGMENT_SHADER, shader_source = c_str fs, compile_status = fst ?fr, shader_info_log = snd ?fr, delete_status = False, attach_count = 0\<rparr>), programs = P(n + 2 \<mapsto> \<lparr>attached_shaders = [], link_status = fst ?L, program_info_log = snd ?L\<rparr>), next_name = n + 3, stdout = out @ printed_log (snd ?vr) @ printed_log (snd ?fr) @ printed_log (snd ?L)\<rparr>"
    by (simp add: glDetachShader_def ne)
  have s16: "glDeleteShader n \<lparr>shaders = S(n \<mapsto> \<lparr>shader_type = GL_VERTEX_SHADER, shader_source = c_str vs, compile_status = fst ?vr, shader_info_log = snd ?vr, delete_status = False, attach_count = 0\<rparr>, n + 1 \<mapsto> \<lparr>shader_type = GL_FRAGMENT_SHADER, shader_source = c_str fs, compile_status = fst ?fr, shader_info_log = snd ?fr, delete_status = False, attach_count = 0\<rparr>), programs = P(n + 2 \<mapsto> \<lparr>attached_shaders = [], link_status = fst ?L, program_info_log = snd ?L\<rparr>), next_name = n + 3, stdout = out @ printed_log (snd ?vr) @ printed_log (snd ?fr) @ printed_log (snd ?L)\<rparr> = \<lparr>shaders = S(n := None, n + 1 \<mapsto> \<lparr>shader_type = GL_FRAGMENT_SHADER, shader_source = c_str fs, compile_status = fst ?fr, shader_info_log = snd ?fr, delete_status = False, attach_count = 0\<rparr>), programs = P(n + 2 \<mapsto> \<lparr>attached_shaders = [], link_status = fst ?L, program_info_log = snd ?L\<rparr>), next_name = n + 3, stdout = out @ printed_log (snd ?vr) @ printed_log (snd ?fr) @ printed_log (snd ?L)\<rparr>"
    by (simp add: glDeleteShader_def ne fun_upd_twist)
  have s17: "glDeleteShader (n + 1) \<lparr>shaders = S(n := None, n + 1 \<mapsto> \<lparr>shader_type = GL_FRAGMENT_SHADER, shader_source = c_str fs, compile_status = fst ?fr, shader_info_log = snd ?fr, delete_status = False, attach_count = 0\<rparr>), programs = P(n + 2 \<mapsto> \<lparr>attached_shaders = [], link_status = fst ?L, program_info_log = snd ?L\<rparr>), next_name = n + 3, stdout = out @ printed_log (snd ?vr) @ printed_log (snd ?fr) @ printed_log (snd ?L)\<rparr> = \<lparr>shaders = S(n := None, n + 1 := None), programs = P(n + 2 \<mapsto> \<lparr>attached_shaders = [], link_status = fst ?L, program_info_log = snd ?L\<rparr>), next_name = n + 3, stdout = out @ printed_log (snd ?vr) @ printed_log (snd ?fr) @ printed_log (snd ?L)\<rparr>"
    by (simp add: glDeleteShader_def ne)
  show ?thesis
    unfolding load_shaders_def
    by (simp only: Let_def prod.case s1 s2 s3 s4 s5 s6 s7 s8 s9 s10 s11 s12 s13 s14 s15 s16 s17)
qed

text \<open>
  C6. For every driver (compiler and linker), every pair of sources and every state,
  \<^verbatim>\<open>load_shaders\<close> returns the name of the program object it created. That name is the
  same whatever the sources are and whether or not they compile and link: no result tells
  a failure apart. In the state it leaves, the two shader objects are gone, the program
  has no shader attached and carries the linker's verdict, and the output has grown by the
  three information logs, each followed by a newline when it is not empty, and by nothing
  else.
\<close>

theorem load_shaders_returns_program:
  "fst (load_shaders d vs fs w) = next_name w + 2
   \<and> fst (load_shaders d' vs' fs' w) = fst (load_shaders d vs fs w)
   \<and> shaders (snd (load_shaders d vs fs w)) (next_name w) = None
   \<and> shaders (snd (load_shaders d vs fs w)) (next_name w + 1) = None
   \<and> programs (snd (load_shaders d vs fs w)) (fst (load_shaders d vs fs w))
       = Some \<lparr> attached_shaders = [],
                link_status = fst (link_program d
                  [compiled_stage d GL_VERTEX_SHADER vs, compiled_stage d GL_FRAGMENT_SHADER fs]),
                program_info_log = snd (link_program d
                  [compiled_stage d GL_VERTEX_SHADER vs, compiled_stage d GL_FRAGMENT_SHADER fs]) \<rparr>
   \<and> stdout (snd (load_shaders d vs fs w))
       = stdout w
         @ printed_log (snd (compile_shader d GL_VERTEX_SHADER (c_str vs)))
         @ printed_log (snd (compile_shader d GL_FRAGMENT_SHADER (c_str fs)))
         @ printed_log (snd (link_program d
             [compiled_stage d GL_VERTEX_SHADER vs, compiled_stage d GL_FRAGMENT_SHADER fs]))"
proof -
  obtain S P n out where w: "w = \<lparr>shaders = S, programs = P, next_name = n, stdout = out\<rparr>"
    by (cases w)
  have ne: "n + 1 \<noteq> n"
    by simp
  show ?thesis
    unfolding w load_shaders_closed_form
    by (simp add: ne)
qed

end
